theory Spec2Isabelle
  imports Complex_Main
begin

section \<open>JavaScript values read by the payload builder\<close>

text \<open>
  \<open>buildFinalRenderPayload\<close> (utils/buildFinalRenderPayload, the multi-series variant)
  reads every field of its parameter bag defensively (\<open>as any\<close>, \<open>?.\<close>, \<open>Number(...)\<close>,
  \<open>String(... || '')\<close>), so the model works on run-time values, not on the declared
  TypeScript types.

  A JavaScript number is an IEEE double. The builder performs no arithmetic: it only
  tests \<open>Number.isFinite\<close>, compares against 0 and 1, and copies numbers through. A
  number is therefore modelled by its value (a real for a finite double, with +0 and -0
  identified, which no test of the builder separates) or one of the three special values.
\<close>

datatype jsnum = Finite real | PosInf | NegInf | NaN

datatype jsval =
    Undefined
  | Null
  | Bool bool
  | Num jsnum
  | Str string
  | Arr "jsval list"
  | Obj "(string \<times> jsval) list"

text \<open>
  The values cover \<open>undefined\<close>, \<open>null\<close>, booleans, numbers, strings, arrays and plain
  objects (own data properties, in an association list). Strings are lists of code units
  below 256. Objects with user-defined \<open>toString\<close>/\<open>valueOf\<close>, symbols and bigints are
  outside the model.

  Two conversions of the language run-time depend on the rounding of doubles and are not
  code of this repository. They are parameters of the model, so every theorem holds for
  whatever the run-time computes:
  \<^item> \<open>str_literal_num\<close>: the number denoted by a non-empty, already trimmed string
    (\<open>NaN\<close> when it is no numeric literal);
  \<^item> \<open>fin_to_string\<close>: the decimal text of a finite non-zero number.
\<close>

record runtime =
  str_literal_num :: "string \<Rightarrow> jsnum"
  fin_to_string :: "real \<Rightarrow> string"

subsection \<open>Number tests\<close>

text \<open>\<open>Number.isFinite(n)\<close> on a number.\<close>

fun isFinite :: "jsnum \<Rightarrow> bool" where
  "isFinite (Finite r) = True"
| "isFinite PosInf = False"
| "isFinite NegInf = False"
| "isFinite NaN = False"

text \<open>\<open>n > 0\<close> and \<open>n >= 0\<close>: every comparison with \<open>NaN\<close> is false.\<close>

fun gt0 :: "jsnum \<Rightarrow> bool" where
  "gt0 (Finite r) = (0 < r)"
| "gt0 PosInf = True"
| "gt0 NegInf = False"
| "gt0 NaN = False"

fun ge0 :: "jsnum \<Rightarrow> bool" where
  "ge0 (Finite r) = (0 \<le> r)"
| "ge0 PosInf = True"
| "ge0 NegInf = False"
| "ge0 NaN = False"

text \<open>\<open>n !== 1\<close>: true for \<open>NaN\<close> and the infinities.\<close>

fun ne1 :: "jsnum \<Rightarrow> bool" where
  "ne1 (Finite r) = (r \<noteq> 1)"
| "ne1 PosInf = True"
| "ne1 NegInf = True"
| "ne1 NaN = True"

subsection \<open>Strings\<close>

text \<open>
  White space of \<open>String.prototype.trim\<close> and of the string-to-number conversion, among
  the code units below 256: TAB, LF, VT, FF, CR, SP and NBSP.
\<close>

definition is_ws :: "char \<Rightarrow> bool" where
  "is_ws c = (c = CHR 0x09 \<or> c = CHR 0x0A \<or> c = CHR 0x0B \<or> c = CHR 0x0C \<or>
              c = CHR 0x0D \<or> c = CHR 0x20 \<or> c = CHR 0xA0)"

definition trim :: "string \<Rightarrow> string" where
  "trim s = rev (dropWhile is_ws (rev (dropWhile is_ws s)))"

text \<open>\<open>toLowerCase\<close> on code units below 256: A-Z and the accented capitals.\<close>

definition lower_char :: "char \<Rightarrow> char" where
  "lower_char c =
     (let n = (of_char c :: nat)
      in if (65 \<le> n \<and> n \<le> 90) \<or> (192 \<le> n \<and> n \<le> 222 \<and> n \<noteq> 215)
         then char_of (n + 32) else c)"

definition toLowerCase :: "string \<Rightarrow> string" where
  "toLowerCase s = map lower_char s"

text \<open>\<open>xs.join(',')\<close> on strings.\<close>

fun join_comma :: "string list \<Rightarrow> string" where
  "join_comma [] = []"
| "join_comma [x] = x"
| "join_comma (x # y # ys) = x @ '','' @ join_comma (y # ys)"

subsection \<open>Coercions of the language\<close>

text \<open>Truthiness, as \<open>||\<close> and \<open>Boolean(...)\<close> test it.\<close>

fun truthy :: "jsval \<Rightarrow> bool" where
  "truthy Undefined = False"
| "truthy Null = False"
| "truthy (Bool b) = b"
| "truthy (Num (Finite r)) = (r \<noteq> 0)"
| "truthy (Num NaN) = False"
| "truthy (Num PosInf) = True"
| "truthy (Num NegInf) = True"
| "truthy (Str s) = (s \<noteq> [])"
| "truthy (Arr xs) = True"
| "truthy (Obj kvs) = True"

text \<open>\<open>String(n)\<close> for a number.\<close>

fun num_to_string :: "runtime \<Rightarrow> jsnum \<Rightarrow> string" where
  "num_to_string rt NaN = ''NaN''"
| "num_to_string rt PosInf = ''Infinity''"
| "num_to_string rt NegInf = ''-Infinity''"
| "num_to_string rt (Finite r) = (if r = 0 then ''0'' else fin_to_string rt r)"

text \<open>
  \<open>String(v)\<close>. An array joins its elements with commas, \<open>null\<close> and \<open>undefined\<close>
  elements giving the empty string; a plain object gives \<open>[object Object]\<close>.
\<close>

fun ToString :: "runtime \<Rightarrow> jsval \<Rightarrow> string" where
  "ToString rt Undefined = ''undefined''"
| "ToString rt Null = ''null''"
| "ToString rt (Bool b) = (if b then ''true'' else ''false'')"
| "ToString rt (Num n) = num_to_string rt n"
| "ToString rt (Str s) = s"
| "ToString rt (Arr xs) =
     join_comma (map (\<lambda>x. if x = Undefined \<or> x = Null then [] else ToString rt x) xs)"
| "ToString rt (Obj kvs) = ''[object Object]''"

text \<open>
  The string-to-number conversion: white space is trimmed, the empty string is 0, and
  anything else is read by the run-time.
\<close>

definition StringToNumber :: "runtime \<Rightarrow> string \<Rightarrow> jsnum" where
  "StringToNumber rt s = (let t = trim s in if t = [] then Finite 0 else str_literal_num rt t)"

text \<open>
  \<open>Number(v)\<close>. Arrays and plain objects are converted to a primitive first; their
  \<open>valueOf\<close> returns the object itself, so the primitive is their string.
\<close>

fun Number :: "runtime \<Rightarrow> jsval \<Rightarrow> jsnum" where
  "Number rt Undefined = NaN"
| "Number rt Null = Finite 0"
| "Number rt (Bool b) = (if b then Finite 1 else Finite 0)"
| "Number rt (Num n) = n"
| "Number rt (Str s) = StringToNumber rt s"
| "Number rt (Arr xs) = StringToNumber rt (ToString rt (Arr xs))"
| "Number rt (Obj kvs) = StringToNumber rt (ToString rt (Obj kvs))"

text \<open>\<open>String(v || '')\<close>.\<close>

definition str_or_empty :: "runtime \<Rightarrow> jsval \<Rightarrow> string" where
  "str_or_empty rt v = (if truthy v then ToString rt v else [])"

text \<open>
  \<open>v?.k\<close> for the property names the builder reads. None of them is defined on a
  built-in prototype, so the read gives \<open>undefined\<close> on everything but an object that
  has the property itself.
\<close>

fun get_prop :: "jsval \<Rightarrow> string \<Rightarrow> jsval" where
  "get_prop (Obj kvs) k = (case map_of kvs k of Some v \<Rightarrow> v | None \<Rightarrow> Undefined)"
| "get_prop v k = Undefined"

section \<open>The parameter bag and the payload\<close>

text \<open>
  The parameter bag, one field per property of \<open>params\<close>; a property that is missing is
  \<open>Undefined\<close>. The property \<open>overlays\<close> is named \<open>overlays_in\<close> here, since the payload
  has a key of the same name.
\<close>

record params =
  jobId :: jsval
  documentId :: jsval
  objectWidthMm :: jsval
  objectHeightMm :: jsval
  objectXMm :: jsval
  objectYMm :: jsval
  objectAlignment :: jsval
  objectRotationDeg :: jsval
  objectKeepProportions :: jsval
  objectCutMarginMm :: jsval
  seriesStart :: jsval
  seriesCount :: jsval
  seriesXMm :: jsval
  seriesYMm :: jsval
  seriesFontFamily :: jsval
  seriesFontSizeMm :: jsval
  perLetterFontSizeMm :: jsval
  seriesLetterSpacingMm :: jsval
  seriesRotationDeg :: jsval
  seriesColor :: jsval
  seriesStep :: jsval
  seriesList :: jsval
  customFonts :: jsval
  overlays_in :: jsval
  svgOverlays :: jsval

text \<open>
  \<open>FinalRenderPayload\<close>. An optional key is an \<open>option\<close>: \<open>None\<close> is a key that is not
  in the object (or holds \<open>undefined\<close>, which serialises the same way). Keys that occur
  in several of the nested objects carry a prefix (\<open>obj_\<close>, \<open>font_\<close>, \<open>ras_\<close>, \<open>svg_\<close>).
\<close>

record series_entry =
  start :: string
  count :: jsnum
  font_family :: string
  font_size_mm :: jsnum
  per_letter_font_size_mm :: "jsnum list option"
  anchor_space :: string
  x_mm :: jsnum
  y_mm :: jsnum
  letter_spacing_mm :: jsnum
  rotation_deg :: jsnum
  color :: string
  step :: "jsnum option"

record object_mm =
  obj_w :: jsnum
  obj_h :: jsnum
  obj_x_mm :: "jsnum option"
  obj_y_mm :: "jsnum option"
  alignment :: string
  obj_rotation_deg :: jsnum
  keep_proportions :: bool
  cut_margin_mm :: jsnum

record custom_font =
  family :: string
  font_data_url :: string
  font_mime :: string

record raster_overlay =
  data_url :: string
  mime :: string
  ras_x_mm :: jsnum
  ras_y_mm :: jsnum
  w_mm :: jsnum
  h_mm :: jsnum
  ras_rotation_deg :: jsnum

record svg_overlay =
  svg_x_mm :: jsnum
  svg_y_mm :: jsnum
  svg_scale :: jsnum
  svg_rotation_deg :: jsnum
  svg_key :: string

text \<open>The union of the two overlay shapes; \<open>SvgOverlay\<close> is the one tagged \<open>type: 'svg'\<close>.\<close>

datatype overlay = RasterOverlay raster_overlay | SvgOverlay svg_overlay

record payload =
  job_id :: string
  svg_s3_key :: string
  custom_fonts :: "custom_font list option"
  overlays :: "overlay list option"
  object_mm :: object_mm
  series :: "series_entry option"
  series_list :: "series_entry list option"

text \<open>\<open>throw new Error(message)\<close>.\<close>

datatype error = Error string

section \<open>The builder\<close>

text \<open>\<open>toFiniteNumberOrNull\<close>: \<open>null\<close> for \<open>null\<close>, \<open>undefined\<close> and whatever is not finite.\<close>

fun toFiniteNumberOrNull :: "runtime \<Rightarrow> jsval \<Rightarrow> jsnum option" where
  "toFiniteNumberOrNull rt Null = None"
| "toFiniteNumberOrNull rt Undefined = None"
| "toFiniteNumberOrNull rt raw = (let n = Number rt raw in if isFinite n then Some n else None)"

text \<open>\<open>vs.map((v) => Number(v)).filter((v) => Number.isFinite(v) && v > 0)\<close>.\<close>

definition per_letter_sizes :: "runtime \<Rightarrow> jsval list \<Rightarrow> jsnum list" where
  "per_letter_sizes rt vs = filter (\<lambda>v. isFinite v \<and> gt0 v) (map (Number rt) vs)"

text \<open>
  The spread \<open>...(Number.isFinite(n) && n !== 1 ? { step: n } : {})\<close>, for \<open>n\<close> the
  number the supplied step converts to.
\<close>

definition step_field :: "jsnum \<Rightarrow> jsnum option" where
  "step_field n = (if isFinite n \<and> ne1 n then Some n else None)"

text \<open>The spread \<open>...(xs && xs.length ? { key: xs } : {})\<close> of an array that is there.\<close>

definition omit_empty :: "'a list \<Rightarrow> 'a list option" where
  "omit_empty xs = (if xs = [] then None else Some xs)"

subsection \<open>The series list\<close>

text \<open>The callback of \<open>params.seriesList.map\<close>: one list entry, field by field.\<close>

definition series_list_entry :: "runtime \<Rightarrow> jsval \<Rightarrow> series_entry" where
  "series_list_entry rt s =
     \<lparr> start = str_or_empty rt (get_prop s ''start''),
       count = Number rt (get_prop s ''count''),
       font_family = str_or_empty rt (get_prop s ''fontFamily''),
       font_size_mm = Number rt (get_prop s ''fontSizeMm''),
       per_letter_font_size_mm =
         (case get_prop s ''perLetterFontSizeMm'' of
            Arr vs \<Rightarrow> Some (per_letter_sizes rt vs)
          | _ \<Rightarrow> None),
       anchor_space = ''object_mm'',
       x_mm = Number rt (get_prop s ''xMm''),
       y_mm = Number rt (get_prop s ''yMm''),
       letter_spacing_mm = Number rt (get_prop s ''letterSpacingMm''),
       rotation_deg = Number rt (get_prop s ''rotationDeg''),
       color = trim (str_or_empty rt (get_prop s ''color'')),
       step = step_field (Number rt (get_prop s ''step'')) \<rparr>"

text \<open>The callback of the \<open>.filter\<close> that follows.\<close>

definition series_entry_ok :: "series_entry \<Rightarrow> bool" where
  "series_entry_ok s =
     (start s \<noteq> [] \<and>
      isFinite (count s) \<and>
      gt0 (count s) \<and>
      font_family s \<noteq> [] \<and>
      isFinite (font_size_mm s) \<and>
      gt0 (font_size_mm s) \<and>
      isFinite (x_mm s) \<and>
      isFinite (y_mm s) \<and>
      isFinite (letter_spacing_mm s) \<and>
      isFinite (rotation_deg s) \<and>
      color s \<noteq> [])"

text \<open>\<open>const series_list\<close>: the mapped and filtered list, or \<open>null\<close> (here \<open>None\<close>).\<close>

definition series_list_of :: "runtime \<Rightarrow> params \<Rightarrow> series_entry list option" where
  "series_list_of rt p =
     (case seriesList p of
        Arr xs \<Rightarrow> Some (filter series_entry_ok (map (series_list_entry rt) xs))
      | _ \<Rightarrow> None)"

text \<open>\<open>const hasSeriesList = Boolean(series_list && series_list.length)\<close>.\<close>

definition hasSeriesList :: "runtime \<Rightarrow> params \<Rightarrow> bool" where
  "hasSeriesList rt p =
     (case series_list_of rt p of None \<Rightarrow> False | Some l \<Rightarrow> l \<noteq> [])"

subsection \<open>The single series\<close>

text \<open>
  The block \<open>if (shouldBuildSingleSeries) { ... }\<close> with the object literal that the
  return statement builds from the same constants: each check throws in the order of the
  source, and the series object is built when all have passed.
\<close>

definition single_series :: "runtime \<Rightarrow> params \<Rightarrow> error + series_entry" where
  "single_series rt p =
     (let start_s = str_or_empty rt (seriesStart p);
          count_n = Number rt (seriesCount p);
          xMm = toFiniteNumberOrNull rt (seriesXMm p);
          yMm = toFiniteNumberOrNull rt (seriesYMm p);
          family_s = str_or_empty rt (seriesFontFamily p);
          size_n = Number rt (seriesFontSizeMm p);
          per_letter =
            (case perLetterFontSizeMm p of
               Arr vs \<Rightarrow> Some (per_letter_sizes rt vs)
             | _ \<Rightarrow> None);
          spacing_n = Number rt (seriesLetterSpacingMm p);
          rotation_n = Number rt (seriesRotationDeg p);
          color_s = trim (str_or_empty rt (seriesColor p));
          step_n = Number rt (seriesStep p)
      in
        if start_s = [] then Inl (Error ''series.start is required'')
        else if \<not> (isFinite count_n \<and> gt0 count_n)
          then Inl (Error ''series.count is required and must be > 0'')
        else case xMm of
          None \<Rightarrow>
            Inl (Error ''series requires object_mm coordinates (missing seriesXMm/seriesYMm)'')
        | Some x \<Rightarrow>
         (case yMm of
            None \<Rightarrow>
              Inl (Error ''series requires object_mm coordinates (missing seriesXMm/seriesYMm)'')
          | Some y \<Rightarrow>
              if family_s = [] then Inl (Error ''series.font_family is required'')
              else if \<not> (isFinite size_n \<and> gt0 size_n)
                then Inl (Error ''series.font_size_mm must be a number > 0'')
              else if \<not> isFinite spacing_n
                then Inl (Error ''series.letter_spacing_mm must be a number'')
              else if \<not> isFinite rotation_n
                then Inl (Error ''series.rotation_deg must be a number'')
              else if color_s = [] then Inl (Error ''series.color is required'')
              else Inr
                \<lparr> start = start_s,
                  count = count_n,
                  font_family = family_s,
                  font_size_mm = size_n,
                  per_letter_font_size_mm =
                    (case per_letter of None \<Rightarrow> None | Some l \<Rightarrow> omit_empty l),
                  anchor_space = ''object_mm'',
                  x_mm = x,
                  y_mm = y,
                  letter_spacing_mm = spacing_n,
                  rotation_deg = rotation_n,
                  color = color_s,
                  step = step_field step_n \<rparr>))"

subsection \<open>Custom fonts and overlays\<close>

definition font_entry :: "runtime \<Rightarrow> jsval \<Rightarrow> custom_font" where
  "font_entry rt f =
     \<lparr> family = str_or_empty rt (get_prop f ''family''),
       font_data_url = str_or_empty rt (get_prop f ''dataUrl''),
       font_mime = str_or_empty rt (get_prop f ''mime'') \<rparr>"

definition font_ok :: "custom_font \<Rightarrow> bool" where
  "font_ok f = (family f \<noteq> [] \<and> font_data_url f \<noteq> [])"

text \<open>\<open>const custom_fonts\<close>: \<open>undefined\<close> (here \<open>None\<close>) when \<open>customFonts\<close> is no array.\<close>

definition custom_fonts_of :: "runtime \<Rightarrow> params \<Rightarrow> custom_font list option" where
  "custom_fonts_of rt p =
     (case customFonts p of
        Arr fs \<Rightarrow> Some (filter font_ok (map (font_entry rt) fs))
      | _ \<Rightarrow> None)"

definition raster_entry :: "runtime \<Rightarrow> jsval \<Rightarrow> raster_overlay" where
  "raster_entry rt v =
     \<lparr> data_url = str_or_empty rt (get_prop v ''dataUrl''),
       mime = str_or_empty rt (get_prop v ''mime''),
       ras_x_mm = Number rt (get_prop v ''xMm''),
       ras_y_mm = Number rt (get_prop v ''yMm''),
       w_mm = Number rt (get_prop v ''wMm''),
       h_mm = Number rt (get_prop v ''hMm''),
       ras_rotation_deg = Number rt (get_prop v ''rotationDeg'') \<rparr>"

definition raster_ok :: "raster_overlay \<Rightarrow> bool" where
  "raster_ok v =
     (data_url v \<noteq> [] \<and>
      isFinite (ras_x_mm v) \<and>
      isFinite (ras_y_mm v) \<and>
      isFinite (w_mm v) \<and>
      isFinite (h_mm v) \<and>
      gt0 (w_mm v) \<and>
      gt0 (h_mm v) \<and>
      isFinite (ras_rotation_deg v))"

text \<open>\<open>const imageOverlays\<close>: the empty array when \<open>overlays\<close> is no array.\<close>

definition imageOverlays :: "runtime \<Rightarrow> params \<Rightarrow> raster_overlay list" where
  "imageOverlays rt p =
     (case overlays_in p of
        Arr vs \<Rightarrow> filter raster_ok (map (raster_entry rt) vs)
      | _ \<Rightarrow> [])"

definition svg_entry :: "runtime \<Rightarrow> jsval \<Rightarrow> svg_overlay" where
  "svg_entry rt v =
     \<lparr> svg_x_mm = Number rt (get_prop v ''xMm''),
       svg_y_mm = Number rt (get_prop v ''yMm''),
       svg_scale = Number rt (get_prop v ''scale''),
       svg_rotation_deg = Number rt (get_prop v ''rotationDeg''),
       svg_key = str_or_empty rt (get_prop v ''svgS3Key'') \<rparr>"

definition svg_ok :: "svg_overlay \<Rightarrow> bool" where
  "svg_ok v =
     (isFinite (svg_x_mm v) \<and>
      isFinite (svg_y_mm v) \<and>
      isFinite (svg_scale v) \<and>
      gt0 (svg_scale v) \<and>
      isFinite (svg_rotation_deg v) \<and>
      svg_key v \<noteq> [])"

text \<open>\<open>const svgOverlays\<close> of the builder, from the parameter of the same name.\<close>

definition svgOverlays_of :: "runtime \<Rightarrow> params \<Rightarrow> svg_overlay list" where
  "svgOverlays_of rt p =
     (case svgOverlays p of
        Arr vs \<Rightarrow> filter svg_ok (map (svg_entry rt) vs)
      | _ \<Rightarrow> [])"

text \<open>\<open>const overlays = [...imageOverlays, ...svgOverlays]\<close>.\<close>

definition overlays_of :: "runtime \<Rightarrow> params \<Rightarrow> overlay list" where
  "overlays_of rt p = map RasterOverlay (imageOverlays rt p) @ map SvgOverlay (svgOverlays_of rt p)"

subsection \<open>The placement rectangle\<close>

text \<open>
  \<open>w !== null && w > 0 && h !== null && h > 0\<close>, giving the two numbers when it holds.
\<close>

definition positive_size :: "jsnum option \<Rightarrow> jsnum option \<Rightarrow> (jsnum \<times> jsnum) option" where
  "positive_size w h =
     (case w of
        None \<Rightarrow> None
      | Some wv \<Rightarrow>
         (case h of
            None \<Rightarrow> None
          | Some hv \<Rightarrow> if gt0 wv \<and> gt0 hv then Some (wv, hv) else None))"

definition alignment_of :: "runtime \<Rightarrow> jsval \<Rightarrow> string" where
  "alignment_of rt v =
     (let alignmentRaw = toLowerCase (trim (str_or_empty rt v))
      in if alignmentRaw = ''left'' \<or> alignmentRaw = ''right'' \<or> alignmentRaw = ''center''
         then alignmentRaw else ''center'')"

definition object_mm_of :: "runtime \<Rightarrow> params \<Rightarrow> jsnum \<Rightarrow> jsnum \<Rightarrow> object_mm" where
  "object_mm_of rt p wv hv =
     (let rotationDegRaw = Number rt (objectRotationDeg p);
          cutMarginRaw = Number rt (objectCutMarginMm p)
      in \<lparr> obj_w = wv,
           obj_h = hv,
           obj_x_mm = toFiniteNumberOrNull rt (objectXMm p),
           obj_y_mm = toFiniteNumberOrNull rt (objectYMm p),
           alignment = alignment_of rt (objectAlignment p),
           obj_rotation_deg = (if isFinite rotationDegRaw then rotationDegRaw else Finite 0),
           keep_proportions = (case objectKeepProportions p of Bool b \<Rightarrow> b | _ \<Rightarrow> False),
           cut_margin_mm =
             (if isFinite cutMarginRaw \<and> ge0 cutMarginRaw then cutMarginRaw else Finite 0) \<rparr>)"

subsection \<open>buildFinalRenderPayload\<close>

text \<open>
  The function itself: the three leading checks, then the choice between the list shape
  and the single series. \<open>Inl\<close> is the thrown error, \<open>Inr\<close> the returned payload.
  \<open>series_list?.[0]\<close> is the head of the list when there is one.
\<close>

definition buildFinalRenderPayload :: "runtime \<Rightarrow> params \<Rightarrow> error + payload" where
  "buildFinalRenderPayload rt p =
     (let job = trim (str_or_empty rt (jobId p)) in
      if job = [] then Inl (Error ''job_id is required'')
      else
        let doc = trim (str_or_empty rt (documentId p)) in
        if doc = [] then Inl (Error ''documentId is required'')
        else
          case positive_size (toFiniteNumberOrNull rt (objectWidthMm p))
                             (toFiniteNumberOrNull rt (objectHeightMm p)) of
            None \<Rightarrow> Inl (Error ''object_mm.w and object_mm.h are required and must be > 0'')
          | Some (wv, hv) \<Rightarrow>
              let base =
                \<lparr> job_id = job,
                  svg_s3_key = ''documents/raw/'' @ doc @ ''.svg'',
                  custom_fonts =
                    (case custom_fonts_of rt p of None \<Rightarrow> None | Some fs \<Rightarrow> omit_empty fs),
                  overlays = omit_empty (overlays_of rt p),
                  object_mm = object_mm_of rt p wv hv,
                  series = None,
                  series_list = None \<rparr>
              in
                if hasSeriesList rt p
                then Inr (base
                  \<lparr> series_list := series_list_of rt p,
                    series :=
                      (case series_list_of rt p of
                         Some (e # es) \<Rightarrow> Some e
                       | _ \<Rightarrow> None) \<rparr>)
                else
                  (case single_series rt p of
                     Inl e \<Rightarrow> Inl e
                   | Inr s \<Rightarrow> Inr (base \<lparr> series := Some s \<rparr>)))"

subsection \<open>The checks, one by one\<close>

text \<open>
  The conditions under which the builder does not throw, named after the message of the
  \<open>throw\<close> each one guards, in the order of the source.
\<close>

definition job_id_given :: "runtime \<Rightarrow> params \<Rightarrow> bool" where
  "job_id_given rt p = (trim (str_or_empty rt (jobId p)) \<noteq> [])"

definition documentId_given :: "runtime \<Rightarrow> params \<Rightarrow> bool" where
  "documentId_given rt p = (trim (str_or_empty rt (documentId p)) \<noteq> [])"

definition size_given :: "runtime \<Rightarrow> params \<Rightarrow> bool" where
  "size_given rt p =
     (case toFiniteNumberOrNull rt (objectWidthMm p) of
        None \<Rightarrow> False
      | Some wv \<Rightarrow>
         (case toFiniteNumberOrNull rt (objectHeightMm p) of
            None \<Rightarrow> False
          | Some hv \<Rightarrow> gt0 wv \<and> gt0 hv))"

definition start_given :: "runtime \<Rightarrow> params \<Rightarrow> bool" where
  "start_given rt p = (str_or_empty rt (seriesStart p) \<noteq> [])"

definition count_valid :: "runtime \<Rightarrow> params \<Rightarrow> bool" where
  "count_valid rt p = (isFinite (Number rt (seriesCount p)) \<and> gt0 (Number rt (seriesCount p)))"

definition coordinates_given :: "runtime \<Rightarrow> params \<Rightarrow> bool" where
  "coordinates_given rt p =
     (toFiniteNumberOrNull rt (seriesXMm p) \<noteq> None \<and>
      toFiniteNumberOrNull rt (seriesYMm p) \<noteq> None)"

definition font_family_given :: "runtime \<Rightarrow> params \<Rightarrow> bool" where
  "font_family_given rt p = (str_or_empty rt (seriesFontFamily p) \<noteq> [])"

definition font_size_valid :: "runtime \<Rightarrow> params \<Rightarrow> bool" where
  "font_size_valid rt p =
     (isFinite (Number rt (seriesFontSizeMm p)) \<and> gt0 (Number rt (seriesFontSizeMm p)))"

definition letter_spacing_valid :: "runtime \<Rightarrow> params \<Rightarrow> bool" where
  "letter_spacing_valid rt p = isFinite (Number rt (seriesLetterSpacingMm p))"

definition rotation_valid :: "runtime \<Rightarrow> params \<Rightarrow> bool" where
  "rotation_valid rt p = isFinite (Number rt (seriesRotationDeg p))"

definition color_given :: "runtime \<Rightarrow> params \<Rightarrow> bool" where
  "color_given rt p = (trim (str_or_empty rt (seriesColor p)) \<noteq> [])"

section \<open>Example inputs\<close>

text \<open>
  A run-time for the examples. The examples pass numbers as numbers and strings as
  strings, so neither conversion is consulted on them.
\<close>

definition plain_runtime :: runtime where
  "plain_runtime = \<lparr> str_literal_num = (\<lambda>s. NaN), fin_to_string = (\<lambda>r. ''?'') \<rparr>"

text \<open>The empty parameter bag \<open>{}\<close>.\<close>

definition no_params :: params where
  "no_params =
     \<lparr> jobId = Undefined, documentId = Undefined, objectWidthMm = Undefined,
       objectHeightMm = Undefined, objectXMm = Undefined, objectYMm = Undefined,
       objectAlignment = Undefined, objectRotationDeg = Undefined,
       objectKeepProportions = Undefined, objectCutMarginMm = Undefined,
       seriesStart = Undefined, seriesCount = Undefined, seriesXMm = Undefined,
       seriesYMm = Undefined, seriesFontFamily = Undefined, seriesFontSizeMm = Undefined,
       perLetterFontSizeMm = Undefined, seriesLetterSpacingMm = Undefined,
       seriesRotationDeg = Undefined, seriesColor = Undefined, seriesStep = Undefined,
       seriesList = Undefined, customFonts = Undefined, overlays_in = Undefined,
       svgOverlays = Undefined \<rparr>"

text \<open>
  \<open>{jobId: "j1", documentId: "abc123", objectWidthMm: 100, objectHeightMm: 50}\<close>: the
  leading checks pass and no series is given.
\<close>

definition placed_only :: params where
  "placed_only =
     no_params \<lparr> jobId := Str ''j1'', documentId := Str ''abc123'',
       objectWidthMm := Num (Finite 100), objectHeightMm := Num (Finite 50) \<rparr>"

text \<open>The same with a valid single series (scenario A of the specification).\<close>

definition single_input :: params where
  "single_input =
     placed_only \<lparr> seriesStart := Str ''A001'', seriesCount := Num (Finite 5),
       seriesXMm := Num (Finite 10), seriesYMm := Num (Finite 10),
       seriesFontFamily := Str ''Arial'', seriesFontSizeMm := Num (Finite 4),
       seriesLetterSpacingMm := Num (Finite 0), seriesRotationDeg := Num (Finite 0),
       seriesColor := Str ''#000'' \<rparr>"

text \<open>
  A series-list entry \<open>{start, count, fontFamily: "Arial", fontSizeMm: 4, xMm, yMm: 1,
  letterSpacingMm: 0, rotationDeg: 0, color: "#000", step}\<close>.
\<close>

definition list_entry :: "string \<Rightarrow> jsval \<Rightarrow> jsval \<Rightarrow> jsval \<Rightarrow> jsval" where
  "list_entry st cnt x stp =
     Obj [(''start'', Str st), (''count'', cnt), (''fontFamily'', Str ''Arial''),
          (''fontSizeMm'', Num (Finite 4)), (''xMm'', x), (''yMm'', Num (Finite 1)),
          (''letterSpacingMm'', Num (Finite 0)), (''rotationDeg'', Num (Finite 0)),
          (''color'', Str ''#000''), (''step'', stp)]"

text \<open>The entry of the payload that a valid \<open>list_entry\<close> becomes.\<close>

definition listed :: "string \<Rightarrow> jsnum \<Rightarrow> jsnum \<Rightarrow> jsnum option \<Rightarrow> series_entry" where
  "listed st cnt x stp =
     \<lparr> start = st, count = cnt, font_family = ''Arial'', font_size_mm = Finite 4,
       per_letter_font_size_mm = None, anchor_space = ''object_mm'', x_mm = x,
       y_mm = Finite 1, letter_spacing_mm = Finite 0, rotation_deg = Finite 0,
       color = ''#000'', step = stp \<rparr>"

text \<open>
  A list of a valid entry, an entry with \<open>count: 0\<close> and a valid entry with \<open>step: 2\<close>,
  and no single-series field at all.
\<close>

definition mixed_list_input :: params where
  "mixed_list_input =
     placed_only \<lparr> seriesList :=
       Arr [list_entry ''A1'' (Num (Finite 3)) (Num (Finite 1)) Undefined,
            list_entry ''X'' (Num (Finite 0)) (Num (Finite 1)) Undefined,
            list_entry ''B2'' (Num (Finite 7)) (Num (Finite 1)) (Num (Finite 2))] \<rparr>"

text \<open>
  A raster overlay and a vector overlay (scenario D of the specification), with a raster
  overlay of width 0 after the first and a vector overlay of scale 0 before the second.
\<close>

definition overlay_input :: params where
  "overlay_input =
     single_input
       \<lparr> overlays_in :=
           Arr [Obj [(''dataUrl'', Str ''data:x''), (''mime'', Str ''image/png''),
                     (''xMm'', Num (Finite 5)), (''yMm'', Num (Finite 5)),
                     (''wMm'', Num (Finite 20)), (''hMm'', Num (Finite 10)),
                     (''rotationDeg'', Num (Finite 0))],
                Obj [(''dataUrl'', Str ''data:y''), (''mime'', Str ''image/png''),
                     (''xMm'', Num (Finite 5)), (''yMm'', Num (Finite 5)),
                     (''wMm'', Num (Finite 0)), (''hMm'', Num (Finite 10)),
                     (''rotationDeg'', Num (Finite 0))]],
         svgOverlays :=
           Arr [Obj [(''type'', Str ''svg''), (''xMm'', Num (Finite 1)),
                     (''yMm'', Num (Finite 1)), (''scale'', Num (Finite 0)),
                     (''rotationDeg'', Num (Finite 0)),
                     (''svgS3Key'', Str ''overlays/y.svg'')],
                Obj [(''type'', Str ''svg''), (''xMm'', Num (Finite 1)),
                     (''yMm'', Num (Finite 1)), (''scale'', Num (Finite 1)),
                     (''rotationDeg'', Num (Finite 0)),
                     (''svgS3Key'', Str ''overlays/x.svg'')]] \<rparr>"

text \<open>The payloads the builder returns on these inputs.\<close>

definition default_object :: object_mm where
  "default_object =
     \<lparr> obj_w = Finite 100, obj_h = Finite 50, obj_x_mm = None, obj_y_mm = None,
       alignment = ''center'', obj_rotation_deg = Finite 0, keep_proportions = False,
       cut_margin_mm = Finite 0 \<rparr>"

definition single_series_A :: series_entry where
  "single_series_A =
     \<lparr> start = ''A001'', count = Finite 5, font_family = ''Arial'',
       font_size_mm = Finite 4, per_letter_font_size_mm = None,
       anchor_space = ''object_mm'', x_mm = Finite 10, y_mm = Finite 10,
       letter_spacing_mm = Finite 0, rotation_deg = Finite 0, color = ''#000'',
       step = None \<rparr>"

definition single_payload :: payload where
  "single_payload =
     \<lparr> job_id = ''j1'', svg_s3_key = ''documents/raw/abc123.svg'', custom_fonts = None,
       overlays = None, object_mm = default_object, series = Some single_series_A,
       series_list = None \<rparr>"

definition mixed_list_payload :: payload where
  "mixed_list_payload =
     \<lparr> job_id = ''j1'', svg_s3_key = ''documents/raw/abc123.svg'', custom_fonts = None,
       overlays = None, object_mm = default_object,
       series = Some (listed ''A1'' (Finite 3) (Finite 1) None),
       series_list =
         Some [listed ''A1'' (Finite 3) (Finite 1) None,
               listed ''B2'' (Finite 7) (Finite 1) (Some (Finite 2))] \<rparr>"

definition example_raster :: raster_overlay where
  "example_raster =
     \<lparr> data_url = ''data:x'', mime = ''image/png'', ras_x_mm = Finite 5,
       ras_y_mm = Finite 5, w_mm = Finite 20, h_mm = Finite 10,
       ras_rotation_deg = Finite 0 \<rparr>"

definition example_svg :: svg_overlay where
  "example_svg =
     \<lparr> svg_x_mm = Finite 1, svg_y_mm = Finite 1, svg_scale = Finite 1,
       svg_rotation_deg = Finite 0, svg_key = ''overlays/x.svg'' \<rparr>"

definition overlay_payload :: payload where
  "overlay_payload =
     single_payload \<lparr> overlays := Some [RasterOverlay example_raster, SvgOverlay example_svg] \<rparr>"

text \<open>The valid single series with \<open>objectCutMarginMm: -5\<close>.\<close>

definition negative_margin_input :: params where
  "negative_margin_input = single_input \<lparr> objectCutMarginMm := Num (Finite (- 5)) \<rparr>"

text \<open>
  A list of two entries whose \<open>xMm\<close> is \<open>null\<close> and the empty string, and the payload
  the builder returns on it.
\<close>

definition null_coordinate_input :: params where
  "null_coordinate_input =
     placed_only \<lparr> seriesList :=
       Arr [list_entry ''N1'' (Num (Finite 2)) Null Undefined,
            list_entry ''N2'' (Num (Finite 2)) (Str []) Undefined] \<rparr>"

definition null_coordinate_payload :: payload where
  "null_coordinate_payload =
     \<lparr> job_id = ''j1'', svg_s3_key = ''documents/raw/abc123.svg'', custom_fonts = None,
       overlays = None, object_mm = default_object,
       series = Some (listed ''N1'' (Finite 2) (Finite 0) None),
       series_list =
         Some [listed ''N1'' (Finite 2) (Finite 0) None,
               listed ''N2'' (Finite 2) (Finite 0) None] \<rparr>"

section \<open>What a call returns\<close>

lemma size_given_iff:
  "size_given rt p \<longleftrightarrow>
     positive_size (toFiniteNumberOrNull rt (objectWidthMm p))
                   (toFiniteNumberOrNull rt (objectHeightMm p)) \<noteq> None"
  by (simp add: size_given_def positive_size_def split: option.splits)

text \<open>A call returns a payload exactly when no check throws.\<close>

lemma build_succeeds_iff:
  "(\<exists>pl. buildFinalRenderPayload rt p = Inr pl) \<longleftrightarrow>
     job_id_given rt p \<and> documentId_given rt p \<and> size_given rt p \<and>
     (hasSeriesList rt p \<or> (\<exists>s. single_series rt p = Inr s))"
  by (auto simp: buildFinalRenderPayload_def Let_def job_id_given_def documentId_given_def
        size_given_iff split: if_splits option.splits sum.splits prod.splits)

lemma single_series_succeeds_iff:
  "(\<exists>s. single_series rt p = Inr s) \<longleftrightarrow>
     start_given rt p \<and> count_valid rt p \<and> coordinates_given rt p \<and>
     font_family_given rt p \<and> font_size_valid rt p \<and> letter_spacing_valid rt p \<and>
     rotation_valid rt p \<and> color_given rt p"
  by (auto simp: single_series_def Let_def start_given_def count_valid_def
        coordinates_given_def font_family_given_def font_size_valid_def
        letter_spacing_valid_def rotation_valid_def color_given_def
        split: if_splits option.splits)

text \<open>The keys of a returned payload, each from the parameters.\<close>

lemma build_Inr_fields:
  assumes "buildFinalRenderPayload rt p = Inr pl"
  shows "job_id pl = trim (str_or_empty rt (jobId p))"
    and "svg_s3_key pl = ''documents/raw/'' @ trim (str_or_empty rt (documentId p)) @ ''.svg''"
    and "custom_fonts pl =
           (case custom_fonts_of rt p of None \<Rightarrow> None | Some fs \<Rightarrow> omit_empty fs)"
    and "overlays pl = omit_empty (overlays_of rt p)"
    and "\<exists>wv hv. positive_size (toFiniteNumberOrNull rt (objectWidthMm p))
                   (toFiniteNumberOrNull rt (objectHeightMm p)) = Some (wv, hv) \<and>
           object_mm pl = object_mm_of rt p wv hv"
    and "series_list pl = (if hasSeriesList rt p then series_list_of rt p else None)"
    and "series pl =
           (if hasSeriesList rt p
            then (case series_list_of rt p of Some (e # es) \<Rightarrow> Some e | _ \<Rightarrow> None)
            else (case single_series rt p of Inr s \<Rightarrow> Some s | Inl e \<Rightarrow> None))"
    and "\<not> hasSeriesList rt p \<Longrightarrow> \<exists>s. single_series rt p = Inr s"
  using assms
  by (auto simp: buildFinalRenderPayload_def Let_def
           split: if_splits option.splits sum.splits prod.splits)

text \<open>The examples, evaluated.\<close>

lemma trim_examples:
  "trim ''j1'' = ''j1''" "trim ''abc123'' = ''abc123''" "trim ''#000'' = ''#000''"
  "trim [] = []"
  by (simp_all add: trim_def is_ws_def)

lemmas builder_defs =
  buildFinalRenderPayload_def str_or_empty_def positive_size_def hasSeriesList_def
  series_list_of_def single_series_def custom_fonts_of_def overlays_of_def
  imageOverlays_def svgOverlays_of_def omit_empty_def object_mm_of_def alignment_of_def
  toLowerCase_def step_field_def series_list_entry_def series_entry_ok_def
  raster_entry_def raster_ok_def svg_entry_def svg_ok_def font_entry_def font_ok_def
  per_letter_sizes_def Let_def

lemmas example_defs =
  single_input_def placed_only_def no_params_def mixed_list_input_def overlay_input_def
  list_entry_def listed_def default_object_def single_series_A_def single_payload_def
  mixed_list_payload_def example_raster_def example_svg_def overlay_payload_def

lemma single_input_result:
  "buildFinalRenderPayload plain_runtime single_input = Inr single_payload"
  by (simp add: builder_defs example_defs trim_examples)

lemma mixed_list_result:
  "buildFinalRenderPayload plain_runtime mixed_list_input = Inr mixed_list_payload"
  by (simp add: builder_defs example_defs trim_examples)

lemma overlay_result:
  "buildFinalRenderPayload plain_runtime overlay_input = Inr overlay_payload"
  by (simp add: builder_defs example_defs trim_examples)

section \<open>The derived storage key\<close>

text \<open>
  Claim C5. Whenever the builder returns a payload, its \<open>svg_s3_key\<close> is
  \<open>documents/raw/\<close>, then the trimmed \<open>String(documentId || '')\<close>, then \<open>.svg\<close>; for the
  document id \<open>"abc123"\<close> it is \<open>documents/raw/abc123.svg\<close>.
\<close>

theorem svg_s3_key_derived:
  assumes "buildFinalRenderPayload rt p = Inr pl"
  shows "svg_s3_key pl = ''documents/raw/'' @ trim (str_or_empty rt (documentId p)) @ ''.svg''
         \<and> (documentId p = Str ''abc123'' \<longrightarrow> svg_s3_key pl = ''documents/raw/abc123.svg'')"
  using build_Inr_fields(2) [OF assms]
  by (simp add: str_or_empty_def trim_examples)

theorem svg_s3_key_derived_witness:
  "buildFinalRenderPayload plain_runtime single_input = Inr single_payload
   \<and> documentId single_input = Str ''abc123''
   \<and> svg_s3_key single_payload = ''documents/raw/abc123.svg''
   \<and> svg_s3_key single_payload =
       ''documents/raw/'' @ trim (str_or_empty plain_runtime (documentId single_input)) @ ''.svg''"
  using svg_s3_key_derived [OF single_input_result] single_input_result
  by (simp add: example_defs)

section \<open>Which parameters a call depends on\<close>

text \<open>
  Two parameter bags that agree on the identifiers and the size, and on which the
  constants of the builder agree, give the same result.
\<close>

lemma build_cong:
  assumes "jobId p' = jobId p" and "documentId p' = documentId p"
    and "objectWidthMm p' = objectWidthMm p" and "objectHeightMm p' = objectHeightMm p"
    and "\<And>wv hv. object_mm_of rt p' wv hv = object_mm_of rt p wv hv"
    and "series_list_of rt p' = series_list_of rt p"
    and "hasSeriesList rt p \<or> single_series rt p' = single_series rt p"
    and "custom_fonts_of rt p' = custom_fonts_of rt p"
    and "overlays_of rt p' = overlays_of rt p"
  shows "buildFinalRenderPayload rt p' = buildFinalRenderPayload rt p"
proof -
  have h: "hasSeriesList rt p' = hasSeriesList rt p"
    using assms(6) by (simp add: hasSeriesList_def)
  show ?thesis
    using assms h
    by (auto simp: buildFinalRenderPayload_def Let_def split: option.splits)
qed

text \<open>The error of a call that throws.\<close>

lemma build_Inl_iff:
  "buildFinalRenderPayload rt p = Inl e \<longleftrightarrow>
     (\<not> job_id_given rt p \<and> e = Error ''job_id is required'') \<or>
     (job_id_given rt p \<and> \<not> documentId_given rt p \<and> e = Error ''documentId is required'') \<or>
     (job_id_given rt p \<and> documentId_given rt p \<and> \<not> size_given rt p \<and>
        e = Error ''object_mm.w and object_mm.h are required and must be > 0'') \<or>
     (job_id_given rt p \<and> documentId_given rt p \<and> size_given rt p \<and>
        \<not> hasSeriesList rt p \<and> single_series rt p = Inl e)"
  by (auto simp: buildFinalRenderPayload_def Let_def job_id_given_def documentId_given_def
        size_given_iff split: if_splits option.splits sum.splits prod.splits)

text \<open>The filters, as conditions on the fields.\<close>

lemma font_ok_eq: "font_ok = (\<lambda>f. family f \<noteq> [] \<and> font_data_url f \<noteq> [])"
  by (simp add: fun_eq_iff font_ok_def)

lemma raster_ok_eq:
  "raster_ok =
     (\<lambda>v. data_url v \<noteq> [] \<and> isFinite (ras_x_mm v) \<and> isFinite (ras_y_mm v) \<and>
          isFinite (w_mm v) \<and> isFinite (h_mm v) \<and> isFinite (ras_rotation_deg v) \<and>
          gt0 (w_mm v) \<and> gt0 (h_mm v))"
  by (auto simp: fun_eq_iff raster_ok_def)

lemma svg_ok_eq:
  "svg_ok =
     (\<lambda>v. isFinite (svg_x_mm v) \<and> isFinite (svg_y_mm v) \<and> isFinite (svg_scale v) \<and>
          isFinite (svg_rotation_deg v) \<and> gt0 (svg_scale v) \<and> svg_key v \<noteq> [])"
  by (auto simp: fun_eq_iff svg_ok_def)

lemma series_entry_ok_eq:
  "series_entry_ok =
     (\<lambda>e. start e \<noteq> [] \<and> isFinite (count e) \<and> gt0 (count e) \<and> font_family e \<noteq> [] \<and>
          isFinite (font_size_mm e) \<and> gt0 (font_size_mm e) \<and> isFinite (x_mm e) \<and>
          isFinite (y_mm e) \<and> isFinite (letter_spacing_mm e) \<and> isFinite (rotation_deg e) \<and>
          color e \<noteq> [])"
  by (simp add: fun_eq_iff series_entry_ok_def)

section \<open>The cut margin\<close>

text \<open>
  Claim C2 says that a cut margin that converts to a finite number below 0 makes the
  builder fail with an error about \<open>object_mm.cut_margin_mm\<close>. The builder has no such
  check: on the valid single series with \<open>objectCutMarginMm: -5\<close> it returns the payload
  of the valid single series, whose cut margin is 0.
\<close>

theorem cut_margin_counterexample:
  "Number plain_runtime (objectCutMarginMm negative_margin_input) = Finite (- 5)
   \<and> buildFinalRenderPayload plain_runtime negative_margin_input = Inr single_payload
   \<and> cut_margin_mm (object_mm single_payload) = Finite 0"
  by (simp add: negative_margin_input_def builder_defs example_defs trim_examples)

text \<open>
  Claim C2, amended. When \<open>objectCutMarginMm\<close> converts to a finite number below 0, the
  builder does not fail on that account: the call has the result it has without the
  parameter, and a payload it returns has \<open>object_mm.cut_margin_mm = 0\<close>.
\<close>

theorem negative_cut_margin_defaults:
  assumes "Number rt (objectCutMarginMm p) = Finite r" and "r < 0"
  shows "buildFinalRenderPayload rt p =
           buildFinalRenderPayload rt (p \<lparr> objectCutMarginMm := Undefined \<rparr>)
         \<and> (\<forall>pl. buildFinalRenderPayload rt p = Inr pl \<longrightarrow>
                cut_margin_mm (object_mm pl) = Finite 0)"
proof -
  have obj: "\<And>wv hv. cut_margin_mm (object_mm_of rt p wv hv) = Finite 0"
    using assms by (simp add: object_mm_of_def Let_def)
  have same: "buildFinalRenderPayload rt (p \<lparr> objectCutMarginMm := Undefined \<rparr>) =
              buildFinalRenderPayload rt p"
    using assms
    by (intro build_cong)
       (simp_all add: object_mm_of_def Let_def series_list_of_def single_series_def
          custom_fonts_of_def overlays_of_def imageOverlays_def svgOverlays_of_def)
  have "cut_margin_mm (object_mm pl) = Finite 0" if "buildFinalRenderPayload rt p = Inr pl" for pl
    using build_Inr_fields(5) [OF that] obj by auto
  with same show ?thesis by simp
qed

theorem negative_cut_margin_defaults_witness:
  "Number plain_runtime (objectCutMarginMm negative_margin_input) = Finite (- 5)
   \<and> (- 5 :: real) < 0
   \<and> buildFinalRenderPayload plain_runtime negative_margin_input = Inr single_payload
   \<and> negative_margin_input \<lparr> objectCutMarginMm := Undefined \<rparr> = single_input
   \<and> buildFinalRenderPayload plain_runtime negative_margin_input =
       buildFinalRenderPayload plain_runtime single_input
   \<and> cut_margin_mm (object_mm single_payload) = Finite 0"
proof -
  have n: "Number plain_runtime (objectCutMarginMm negative_margin_input) = Finite (- 5)"
    by (simp add: negative_margin_input_def)
  have u: "negative_margin_input \<lparr> objectCutMarginMm := Undefined \<rparr> = single_input"
    by (simp add: negative_margin_input_def example_defs)
  have r: "buildFinalRenderPayload plain_runtime negative_margin_input = Inr single_payload"
    using negative_cut_margin_defaults [OF n] single_input_result by (simp add: u)
  show ?thesis
    using negative_cut_margin_defaults [OF n] n u r by simp
qed

section \<open>Optional collections\<close>

text \<open>
  Claim C8. In every returned payload the keys \<open>custom_fonts\<close> and \<open>overlays\<close> never hold
  an empty array. \<open>custom_fonts\<close> is missing when \<open>customFonts\<close> is no array, and when it
  is an array exactly if no entry passes the filter (non-empty family and data URL);
  \<open>overlays\<close> is missing exactly if the raster overlays followed by the vector overlays
  that pass their filters are the empty sequence.
\<close>

theorem optional_collections_omitted:
  assumes "buildFinalRenderPayload rt p = Inr pl"
  shows "custom_fonts pl \<noteq> Some [] \<and> overlays pl \<noteq> Some []
         \<and> ((\<forall>fs. customFonts p \<noteq> Arr fs) \<longrightarrow> custom_fonts pl = None)
         \<and> (\<forall>fs. customFonts p = Arr fs \<longrightarrow>
               (custom_fonts pl = None \<longleftrightarrow>
                  filter (\<lambda>f. family f \<noteq> [] \<and> font_data_url f \<noteq> []) (map (font_entry rt) fs) = []))
         \<and> (overlays pl = None \<longleftrightarrow>
               map RasterOverlay (imageOverlays rt p) @ map SvgOverlay (svgOverlays_of rt p) = [])"
  using build_Inr_fields(3,4) [OF assms]
  by (auto simp: omit_empty_def custom_fonts_of_def overlays_of_def font_ok_eq
           split: option.splits jsval.splits if_splits)

theorem optional_collections_omitted_witness:
  "buildFinalRenderPayload plain_runtime single_input = Inr single_payload
   \<and> customFonts single_input = Undefined
   \<and> custom_fonts single_payload = None
   \<and> overlays single_payload = None
   \<and> buildFinalRenderPayload plain_runtime overlay_input = Inr overlay_payload
   \<and> custom_fonts overlay_payload \<noteq> Some []
   \<and> overlays overlay_payload \<noteq> Some []"
  using optional_collections_omitted [OF single_input_result]
        optional_collections_omitted [OF overlay_result]
        single_input_result overlay_result
  by (simp add: example_defs)

section \<open>The order of the checks\<close>

lemma single_series_Inl_iff:
  "single_series rt p = Inl e \<longleftrightarrow>
     (\<not> start_given rt p \<and> e = Error ''series.start is required'') \<or>
     (start_given rt p \<and> \<not> count_valid rt p \<and>
        e = Error ''series.count is required and must be > 0'') \<or>
     (start_given rt p \<and> count_valid rt p \<and> \<not> coordinates_given rt p \<and>
        e = Error ''series requires object_mm coordinates (missing seriesXMm/seriesYMm)'') \<or>
     (start_given rt p \<and> count_valid rt p \<and> coordinates_given rt p \<and>
        \<not> font_family_given rt p \<and> e = Error ''series.font_family is required'') \<or>
     (start_given rt p \<and> count_valid rt p \<and> coordinates_given rt p \<and>
        font_family_given rt p \<and> \<not> font_size_valid rt p \<and>
        e = Error ''series.font_size_mm must be a number > 0'') \<or>
     (start_given rt p \<and> count_valid rt p \<and> coordinates_given rt p \<and>
        font_family_given rt p \<and> font_size_valid rt p \<and> \<not> letter_spacing_valid rt p \<and>
        e = Error ''series.letter_spacing_mm must be a number'') \<or>
     (start_given rt p \<and> count_valid rt p \<and> coordinates_given rt p \<and>
        font_family_given rt p \<and> font_size_valid rt p \<and> letter_spacing_valid rt p \<and>
        \<not> rotation_valid rt p \<and> e = Error ''series.rotation_deg must be a number'') \<or>
     (start_given rt p \<and> count_valid rt p \<and> coordinates_given rt p \<and>
        font_family_given rt p \<and> font_size_valid rt p \<and> letter_spacing_valid rt p \<and>
        rotation_valid rt p \<and> \<not> color_given rt p \<and> e = Error ''series.color is required'')"
  by (auto simp: single_series_def Let_def start_given_def count_valid_def
        coordinates_given_def font_family_given_def font_size_valid_def
        letter_spacing_valid_def rotation_valid_def color_given_def
        split: if_splits option.splits)

lemmas check_defs =
  job_id_given_def documentId_given_def size_given_def start_given_def count_valid_def
  coordinates_given_def font_family_given_def font_size_valid_def letter_spacing_valid_def
  rotation_valid_def color_given_def

text \<open>
  Claim C3. The builder throws the error of the first check that fails, in the order
  \<open>job_id\<close>, \<open>documentId\<close>, object width and height and then, only when no series-list
  entry survives, series start, count, coordinates, font family, font size, letter
  spacing, rotation, colour. A call that throws returns no payload (its result is an
  \<open>Inl\<close>), and a call on which every check that applies passes returns one.
\<close>

theorem first_failing_check:
  "(\<not> job_id_given rt p \<longrightarrow>
      buildFinalRenderPayload rt p = Inl (Error ''job_id is required''))
   \<and> (job_id_given rt p \<and> \<not> documentId_given rt p \<longrightarrow>
      buildFinalRenderPayload rt p = Inl (Error ''documentId is required''))
   \<and> (job_id_given rt p \<and> documentId_given rt p \<and> \<not> size_given rt p \<longrightarrow>
      buildFinalRenderPayload rt p =
        Inl (Error ''object_mm.w and object_mm.h are required and must be > 0''))
   \<and> (job_id_given rt p \<and> documentId_given rt p \<and> size_given rt p \<longrightarrow>
       (hasSeriesList rt p \<longrightarrow> (\<exists>pl. buildFinalRenderPayload rt p = Inr pl))
     \<and> (\<not> hasSeriesList rt p \<longrightarrow>
         (\<not> start_given rt p \<longrightarrow>
            buildFinalRenderPayload rt p = Inl (Error ''series.start is required''))
       \<and> (start_given rt p \<and> \<not> count_valid rt p \<longrightarrow>
            buildFinalRenderPayload rt p =
              Inl (Error ''series.count is required and must be > 0''))
       \<and> (start_given rt p \<and> count_valid rt p \<and> \<not> coordinates_given rt p \<longrightarrow>
            buildFinalRenderPayload rt p =
              Inl (Error ''series requires object_mm coordinates (missing seriesXMm/seriesYMm)''))
       \<and> (start_given rt p \<and> count_valid rt p \<and> coordinates_given rt p \<and>
            \<not> font_family_given rt p \<longrightarrow>
            buildFinalRenderPayload rt p = Inl (Error ''series.font_family is required''))
       \<and> (start_given rt p \<and> count_valid rt p \<and> coordinates_given rt p \<and>
            font_family_given rt p \<and> \<not> font_size_valid rt p \<longrightarrow>
            buildFinalRenderPayload rt p =
              Inl (Error ''series.font_size_mm must be a number > 0''))
       \<and> (start_given rt p \<and> count_valid rt p \<and> coordinates_given rt p \<and>
            font_family_given rt p \<and> font_size_valid rt p \<and>
            \<not> letter_spacing_valid rt p \<longrightarrow>
            buildFinalRenderPayload rt p =
              Inl (Error ''series.letter_spacing_mm must be a number''))
       \<and> (start_given rt p \<and> count_valid rt p \<and> coordinates_given rt p \<and>
            font_family_given rt p \<and> font_size_valid rt p \<and> letter_spacing_valid rt p \<and>
            \<not> rotation_valid rt p \<longrightarrow>
            buildFinalRenderPayload rt p = Inl (Error ''series.rotation_deg must be a number''))
       \<and> (start_given rt p \<and> count_valid rt p \<and> coordinates_given rt p \<and>
            font_family_given rt p \<and> font_size_valid rt p \<and> letter_spacing_valid rt p \<and>
            rotation_valid rt p \<and> \<not> color_given rt p \<longrightarrow>
            buildFinalRenderPayload rt p = Inl (Error ''series.color is required''))
       \<and> (start_given rt p \<and> count_valid rt p \<and> coordinates_given rt p \<and>
            font_family_given rt p \<and> font_size_valid rt p \<and> letter_spacing_valid rt p \<and>
            rotation_valid rt p \<and> color_given rt p \<longrightarrow>
            (\<exists>pl. buildFinalRenderPayload rt p = Inr pl))))"
  by (simp add: build_Inl_iff single_series_Inl_iff build_succeeds_iff
        single_series_succeeds_iff)

theorem first_failing_check_witness:
  "buildFinalRenderPayload plain_runtime no_params = Inl (Error ''job_id is required'')
   \<and> buildFinalRenderPayload plain_runtime (no_params \<lparr> jobId := Str ''j1'' \<rparr>) =
       Inl (Error ''documentId is required'')
   \<and> buildFinalRenderPayload plain_runtime (single_input \<lparr> objectWidthMm := Num (Finite 0) \<rparr>) =
       Inl (Error ''object_mm.w and object_mm.h are required and must be > 0'')
   \<and> buildFinalRenderPayload plain_runtime placed_only =
       Inl (Error ''series.start is required'')
   \<and> buildFinalRenderPayload plain_runtime (single_input \<lparr> seriesCount := Num (Finite 0) \<rparr>) =
       Inl (Error ''series.count is required and must be > 0'')
   \<and> buildFinalRenderPayload plain_runtime (single_input \<lparr> seriesYMm := Null \<rparr>) =
       Inl (Error ''series requires object_mm coordinates (missing seriesXMm/seriesYMm)'')
   \<and> buildFinalRenderPayload plain_runtime (single_input \<lparr> seriesFontFamily := Str [] \<rparr>) =
       Inl (Error ''series.font_family is required'')
   \<and> buildFinalRenderPayload plain_runtime (single_input \<lparr> seriesFontSizeMm := Num NaN \<rparr>) =
       Inl (Error ''series.font_size_mm must be a number > 0'')
   \<and> buildFinalRenderPayload plain_runtime (single_input \<lparr> seriesLetterSpacingMm := Undefined \<rparr>) =
       Inl (Error ''series.letter_spacing_mm must be a number'')
   \<and> buildFinalRenderPayload plain_runtime (single_input \<lparr> seriesRotationDeg := Num PosInf \<rparr>) =
       Inl (Error ''series.rotation_deg must be a number'')
   \<and> buildFinalRenderPayload plain_runtime (single_input \<lparr> seriesColor := Str '' '' \<rparr>) =
       Inl (Error ''series.color is required'')
   \<and> (\<exists>pl. buildFinalRenderPayload plain_runtime single_input = Inr pl)
   \<and> (\<exists>pl. buildFinalRenderPayload plain_runtime mixed_list_input = Inr pl)"
proof -
  note ev = check_defs example_defs trim_examples str_or_empty_def hasSeriesList_def
    series_list_of_def series_list_entry_def series_entry_ok_def step_field_def
    trim_def is_ws_def
  have r1: "buildFinalRenderPayload plain_runtime no_params
      = Inl (Error ''job_id is required'')"
    using first_failing_check [of plain_runtime "no_params"]
    by (simp add: ev)
  have r2: "buildFinalRenderPayload plain_runtime (no_params \<lparr> jobId := Str ''j1'' \<rparr>)
      = Inl (Error ''documentId is required'')"
    using first_failing_check [of plain_runtime "no_params \<lparr> jobId := Str ''j1'' \<rparr>"]
    by (simp add: ev)
  have r3: "buildFinalRenderPayload plain_runtime (single_input \<lparr> objectWidthMm := Num (Finite 0) \<rparr>)
      = Inl (Error ''object_mm.w and object_mm.h are required and must be > 0'')"
    using first_failing_check [of plain_runtime "single_input \<lparr> objectWidthMm := Num (Finite 0) \<rparr>"]
    by (simp add: ev)
  have r4: "buildFinalRenderPayload plain_runtime placed_only
      = Inl (Error ''series.start is required'')"
    using first_failing_check [of plain_runtime "placed_only"]
    by (simp add: ev)
  have r5: "buildFinalRenderPayload plain_runtime (single_input \<lparr> seriesCount := Num (Finite 0) \<rparr>)
      = Inl (Error ''series.count is required and must be > 0'')"
    using first_failing_check [of plain_runtime "single_input \<lparr> seriesCount := Num (Finite 0) \<rparr>"]
    by (simp add: ev)
  have r6: "buildFinalRenderPayload plain_runtime (single_input \<lparr> seriesYMm := Null \<rparr>)
      = Inl (Error ''series requires object_mm coordinates (missing seriesXMm/seriesYMm)'')"
    using first_failing_check [of plain_runtime "single_input \<lparr> seriesYMm := Null \<rparr>"]
    by (simp add: ev)
  have r7: "buildFinalRenderPayload plain_runtime (single_input \<lparr> seriesFontFamily := Str [] \<rparr>)
      = Inl (Error ''series.font_family is required'')"
    using first_failing_check [of plain_runtime "single_input \<lparr> seriesFontFamily := Str [] \<rparr>"]
    by (simp add: ev)
  have r8: "buildFinalRenderPayload plain_runtime (single_input \<lparr> seriesFontSizeMm := Num NaN \<rparr>)
      = Inl (Error ''series.font_size_mm must be a number > 0'')"
    using first_failing_check [of plain_runtime "single_input \<lparr> seriesFontSizeMm := Num NaN \<rparr>"]
    by (simp add: ev)
  have r9: "buildFinalRenderPayload plain_runtime (single_input \<lparr> seriesLetterSpacingMm := Undefined \<rparr>)
      = Inl (Error ''series.letter_spacing_mm must be a number'')"
    using first_failing_check [of plain_runtime "single_input \<lparr> seriesLetterSpacingMm := Undefined \<rparr>"]
    by (simp add: ev)
  have r10: "buildFinalRenderPayload plain_runtime (single_input \<lparr> seriesRotationDeg := Num PosInf \<rparr>)
      = Inl (Error ''series.rotation_deg must be a number'')"
    using first_failing_check [of plain_runtime "single_input \<lparr> seriesRotationDeg := Num PosInf \<rparr>"]
    by (simp add: ev)
  have r11: "buildFinalRenderPayload plain_runtime (single_input \<lparr> seriesColor := Str '' '' \<rparr>)
      = Inl (Error ''series.color is required'')"
    using first_failing_check [of plain_runtime "single_input \<lparr> seriesColor := Str '' '' \<rparr>"]
    by (simp add: ev)
  have r12: "\<exists>pl. buildFinalRenderPayload plain_runtime single_input = Inr pl"
    using first_failing_check [of plain_runtime single_input]
    by (simp add: ev)
  have r13: "\<exists>pl. buildFinalRenderPayload plain_runtime mixed_list_input = Inr pl"
    using first_failing_check [of plain_runtime mixed_list_input]
    by (simp add: ev)
  show ?thesis
    using r1 r2 r3 r4 r5 r6 r7 r8 r9 r10 r11 r12 r13 by blast
qed

section \<open>Overlays\<close>

text \<open>A call that returns a payload still does when parameters no check reads change.\<close>

lemma build_succeeds_cong:
  assumes "\<exists>pl. buildFinalRenderPayload rt p = Inr pl"
    and "jobId p' = jobId p" and "documentId p' = documentId p"
    and "objectWidthMm p' = objectWidthMm p" and "objectHeightMm p' = objectHeightMm p"
    and "seriesList p' = seriesList p"
    and "single_series rt p' = single_series rt p"
  shows "\<exists>pl. buildFinalRenderPayload rt p' = Inr pl"
  using assms
  by (simp add: build_succeeds_iff job_id_given_def documentId_given_def size_given_def
        hasSeriesList_def series_list_of_def cong: option.case_cong)

text \<open>
  Claim C6. In a returned payload with overlays, the sequence is the raster overlays that
  pass their filter, in the order of \<open>overlays\<close>, followed by the vector overlays that
  pass theirs, in the order of \<open>svgOverlays\<close>. A raster entry passes exactly if its
  \<open>data_url\<close> is non-empty, \<open>x_mm\<close>, \<open>y_mm\<close>, \<open>w_mm\<close>, \<open>h_mm\<close>, \<open>rotation_deg\<close> are
  finite and \<open>w_mm\<close>, \<open>h_mm\<close> are above 0; a vector entry exactly if \<open>x_mm\<close>, \<open>y_mm\<close>,
  \<open>scale\<close>, \<open>rotation_deg\<close> are finite, \<open>scale\<close> is above 0 and \<open>svg_s3_key\<close> is non-empty.
  No overlay makes the call fail: a call that returns a payload returns one whatever
  \<open>overlays\<close> and \<open>svgOverlays\<close> are replaced by.
\<close>

theorem overlays_raster_before_vector:
  assumes "buildFinalRenderPayload rt p = Inr pl"
  shows "(\<forall>ovs. overlays pl = Some ovs \<longrightarrow>
            ovs = map RasterOverlay (imageOverlays rt p) @ map SvgOverlay (svgOverlays_of rt p))
         \<and> (\<forall>vs. overlays_in p = Arr vs \<longrightarrow>
              imageOverlays rt p =
                filter (\<lambda>v. data_url v \<noteq> [] \<and> isFinite (ras_x_mm v) \<and> isFinite (ras_y_mm v) \<and>
                            isFinite (w_mm v) \<and> isFinite (h_mm v) \<and>
                            isFinite (ras_rotation_deg v) \<and> gt0 (w_mm v) \<and> gt0 (h_mm v))
                       (map (raster_entry rt) vs))
         \<and> ((\<forall>vs. overlays_in p \<noteq> Arr vs) \<longrightarrow> imageOverlays rt p = [])
         \<and> (\<forall>vs. svgOverlays p = Arr vs \<longrightarrow>
              svgOverlays_of rt p =
                filter (\<lambda>v. isFinite (svg_x_mm v) \<and> isFinite (svg_y_mm v) \<and>
                            isFinite (svg_scale v) \<and> isFinite (svg_rotation_deg v) \<and>
                            gt0 (svg_scale v) \<and> svg_key v \<noteq> [])
                       (map (svg_entry rt) vs))
         \<and> ((\<forall>vs. svgOverlays p \<noteq> Arr vs) \<longrightarrow> svgOverlays_of rt p = [])
         \<and> (\<forall>a b. \<exists>pl'. buildFinalRenderPayload rt (p \<lparr> overlays_in := a, svgOverlays := b \<rparr>) = Inr pl')"
proof -
  have 1: "\<forall>ovs. overlays pl = Some ovs \<longrightarrow>
            ovs = map RasterOverlay (imageOverlays rt p) @ map SvgOverlay (svgOverlays_of rt p)"
    using build_Inr_fields(4) [OF assms]
    by (simp add: omit_empty_def overlays_of_def split: if_splits)
  have 2: "\<forall>vs. overlays_in p = Arr vs \<longrightarrow>
              imageOverlays rt p =
                filter (\<lambda>v. data_url v \<noteq> [] \<and> isFinite (ras_x_mm v) \<and> isFinite (ras_y_mm v) \<and>
                            isFinite (w_mm v) \<and> isFinite (h_mm v) \<and>
                            isFinite (ras_rotation_deg v) \<and> gt0 (w_mm v) \<and> gt0 (h_mm v))
                       (map (raster_entry rt) vs)"
    by (simp add: imageOverlays_def raster_ok_eq)
  have 3: "(\<forall>vs. overlays_in p \<noteq> Arr vs) \<longrightarrow> imageOverlays rt p = []"
    by (simp add: imageOverlays_def split: jsval.splits)
  have 4: "\<forall>vs. svgOverlays p = Arr vs \<longrightarrow>
              svgOverlays_of rt p =
                filter (\<lambda>v. isFinite (svg_x_mm v) \<and> isFinite (svg_y_mm v) \<and>
                            isFinite (svg_scale v) \<and> isFinite (svg_rotation_deg v) \<and>
                            gt0 (svg_scale v) \<and> svg_key v \<noteq> [])
                       (map (svg_entry rt) vs)"
    by (simp add: svgOverlays_of_def svg_ok_eq)
  have 5: "(\<forall>vs. svgOverlays p \<noteq> Arr vs) \<longrightarrow> svgOverlays_of rt p = []"
    by (simp add: svgOverlays_of_def split: jsval.splits)
  have 6: "\<exists>pl'. buildFinalRenderPayload rt (p \<lparr> overlays_in := a, svgOverlays := b \<rparr>) = Inr pl'"
    for a b
    by (rule build_succeeds_cong [of rt p]) (use assms in \<open>simp_all add: single_series_def\<close>)
  show ?thesis
    using 1 2 3 4 5 6 by blast
qed

theorem overlays_raster_before_vector_witness:
  "buildFinalRenderPayload plain_runtime overlay_input = Inr overlay_payload
   \<and> overlays overlay_payload = Some [RasterOverlay example_raster, SvgOverlay example_svg]
   \<and> imageOverlays plain_runtime overlay_input = [example_raster]
   \<and> svgOverlays_of plain_runtime overlay_input = [example_svg]
   \<and> (\<exists>pl'. buildFinalRenderPayload plain_runtime
               (overlay_input \<lparr> overlays_in := Null, svgOverlays := Arr [Null] \<rparr>) = Inr pl')"
proof -
  have o: "overlays overlay_payload = Some [RasterOverlay example_raster, SvgOverlay example_svg]"
    by (simp add: example_defs)
  have i: "imageOverlays plain_runtime overlay_input = [example_raster]"
    using overlays_raster_before_vector [OF overlay_result]
    by (simp add: example_defs raster_entry_def str_or_empty_def)
  have s: "svgOverlays_of plain_runtime overlay_input = [example_svg]"
    using overlays_raster_before_vector [OF overlay_result]
    by (simp add: example_defs svg_entry_def str_or_empty_def)
  have e: "\<exists>pl'. buildFinalRenderPayload plain_runtime
               (overlay_input \<lparr> overlays_in := Null, svgOverlays := Arr [Null] \<rparr>) = Inr pl'"
    using overlays_raster_before_vector [OF overlay_result] by blast
  show ?thesis
    using overlay_result o i s e by blast
qed

section \<open>The step field\<close>

lemma series_list_of_Some:
  "series_list_of rt p = Some l \<longleftrightarrow>
     (\<exists>xs. seriesList p = Arr xs \<and> l = filter series_entry_ok (map (series_list_entry rt) xs))"
  by (auto simp: series_list_of_def split: jsval.splits)

lemma step_field_cases:
  "step_field n = (case n of Finite r \<Rightarrow> if r \<noteq> 1 then Some (Finite r) else None | _ \<Rightarrow> None)"
  by (cases n) (simp_all add: step_field_def)

lemma single_series_step:
  "single_series rt p = Inr s \<Longrightarrow> step s = step_field (Number rt (seriesStep p))"
  by (auto simp: single_series_def Let_def split: if_splits option.splits)

lemma series_list_entry_step:
  "step (series_list_entry rt x) = step_field (Number rt (get_prop x ''step''))"
  by (simp add: series_list_entry_def)

lemma stepped_result:
  "buildFinalRenderPayload plain_runtime (single_input \<lparr> seriesStep := Num (Finite r) \<rparr>) =
     Inr (single_payload \<lparr> series := Some (single_series_A
            \<lparr> step := (if r \<noteq> 1 then Some (Finite r) else None) \<rparr>) \<rparr>)"
  by (simp add: builder_defs example_defs trim_examples)

text \<open>
  Claim C7. In a returned payload, the \<open>step\<close> key of the single series is there exactly
  if \<open>Number(seriesStep)\<close> is finite and not 1, and then holds that number; the same
  holds for every entry of \<open>series_list\<close> (and so for \<open>series\<close>, its first entry) with
  the \<open>step\<close> of the list entry it was made from. A step of exactly 1 and a missing
  step give no \<open>step\<close> key, a step of 2 gives \<open>step: 2\<close>.
\<close>

theorem step_present_iff:
  assumes "buildFinalRenderPayload rt p = Inr pl"
  shows "(\<not> hasSeriesList rt p \<longrightarrow>
            (\<exists>s. series pl = Some s \<and>
               step s = (case Number rt (seriesStep p) of
                           Finite r \<Rightarrow> if r \<noteq> 1 then Some (Finite r) else None
                         | _ \<Rightarrow> None)
               \<and> (seriesStep p = Num (Finite 1) \<or> seriesStep p = Undefined \<longrightarrow> step s = None)
               \<and> (seriesStep p = Num (Finite 2) \<longrightarrow> step s = Some (Finite 2))))
         \<and> (\<forall>l. series_list pl = Some l \<longrightarrow>
               (\<exists>e es. l = e # es \<and> series pl = Some e) \<and>
               (\<exists>xs. seriesList p = Arr xs \<and>
                  (\<forall>e \<in> set l. \<exists>x \<in> set xs. e = series_list_entry rt x \<and>
                     step e = (case Number rt (get_prop x ''step'') of
                                 Finite r \<Rightarrow> if r \<noteq> 1 then Some (Finite r) else None
                               | _ \<Rightarrow> None)
                     \<and> (get_prop x ''step'' = Num (Finite 1) \<or> get_prop x ''step'' = Undefined
                          \<longrightarrow> step e = None)
                     \<and> (get_prop x ''step'' = Num (Finite 2) \<longrightarrow> step e = Some (Finite 2)))))"
proof -
  have single: "\<exists>s. series pl = Some s \<and>
               step s = (case Number rt (seriesStep p) of
                           Finite r \<Rightarrow> if r \<noteq> 1 then Some (Finite r) else None
                         | _ \<Rightarrow> None)
               \<and> (seriesStep p = Num (Finite 1) \<or> seriesStep p = Undefined \<longrightarrow> step s = None)
               \<and> (seriesStep p = Num (Finite 2) \<longrightarrow> step s = Some (Finite 2))"
    if ns: "\<not> hasSeriesList rt p"
  proof -
    obtain s where s: "single_series rt p = Inr s"
      using build_Inr_fields(8) [OF assms ns] by blast
    have "series pl = Some s"
      using build_Inr_fields(7) [OF assms] ns s by simp
    moreover have "step s = step_field (Number rt (seriesStep p))"
      using s by (rule single_series_step)
    ultimately show ?thesis
      by (auto simp: step_field_cases)
  qed
  have plural: "(\<exists>e es. l = e # es \<and> series pl = Some e) \<and>
               (\<exists>xs. seriesList p = Arr xs \<and>
                  (\<forall>e \<in> set l. \<exists>x \<in> set xs. e = series_list_entry rt x \<and>
                     step e = (case Number rt (get_prop x ''step'') of
                                 Finite r \<Rightarrow> if r \<noteq> 1 then Some (Finite r) else None
                               | _ \<Rightarrow> None)
                     \<and> (get_prop x ''step'' = Num (Finite 1) \<or> get_prop x ''step'' = Undefined
                          \<longrightarrow> step e = None)
                     \<and> (get_prop x ''step'' = Num (Finite 2) \<longrightarrow> step e = Some (Finite 2))))"
    if l: "series_list pl = Some l" for l
  proof -
    have h: "hasSeriesList rt p" and sl: "series_list_of rt p = Some l"
      using build_Inr_fields(6) [OF assms] l by (auto split: if_splits)
    then obtain e es where ees: "l = e # es"
      by (cases l) (auto simp: hasSeriesList_def)
    have first: "series pl = Some e"
      using build_Inr_fields(7) [OF assms] h sl ees by simp
    obtain xs where xs: "seriesList p = Arr xs"
      and lf: "l = filter series_entry_ok (map (series_list_entry rt) xs)"
      using sl by (auto simp: series_list_of_Some)
    have "\<exists>x \<in> set xs. e' = series_list_entry rt x \<and>
                     step e' = (case Number rt (get_prop x ''step'') of
                                 Finite r \<Rightarrow> if r \<noteq> 1 then Some (Finite r) else None
                               | _ \<Rightarrow> None)
                     \<and> (get_prop x ''step'' = Num (Finite 1) \<or> get_prop x ''step'' = Undefined
                          \<longrightarrow> step e' = None)
                     \<and> (get_prop x ''step'' = Num (Finite 2) \<longrightarrow> step e' = Some (Finite 2))"
      if mem: "e' \<in> set l" for e'
    proof -
      from mem lf obtain x where "x \<in> set xs" and "e' = series_list_entry rt x"
        by auto
      then show ?thesis
        by (auto simp: series_list_entry_step step_field_cases)
    qed
    with ees first xs show ?thesis by blast
  qed
  show ?thesis
    using single plural by blast
qed

theorem step_present_iff_witness:
  "buildFinalRenderPayload plain_runtime single_input = Inr single_payload
   \<and> \<not> hasSeriesList plain_runtime single_input
   \<and> seriesStep single_input = Undefined
   \<and> series single_payload = Some single_series_A
   \<and> step single_series_A = None
   \<and> (\<exists>pl s. buildFinalRenderPayload plain_runtime
                 (single_input \<lparr> seriesStep := Num (Finite 1) \<rparr>) = Inr pl
          \<and> series pl = Some s \<and> step s = None)
   \<and> (\<exists>pl s. buildFinalRenderPayload plain_runtime
                 (single_input \<lparr> seriesStep := Num (Finite 2) \<rparr>) = Inr pl
          \<and> series pl = Some s \<and> step s = Some (Finite 2))
   \<and> buildFinalRenderPayload plain_runtime mixed_list_input = Inr mixed_list_payload
   \<and> series mixed_list_payload = Some (listed ''A1'' (Finite 3) (Finite 1) None)
   \<and> step (listed ''A1'' (Finite 3) (Finite 1) None) = None"
proof -
  have ns: "\<not> hasSeriesList plain_runtime (single_input \<lparr> seriesStep := v \<rparr>)" for v
    by (simp add: hasSeriesList_def series_list_of_def example_defs)
  have ns0: "\<not> hasSeriesList plain_runtime single_input"
    by (simp add: hasSeriesList_def series_list_of_def example_defs)
  have a: "series single_payload = Some single_series_A \<and> step single_series_A = None"
    using step_present_iff [OF single_input_result] ns0
    by (simp add: example_defs)
  have b: "\<exists>pl s. buildFinalRenderPayload plain_runtime
                 (single_input \<lparr> seriesStep := Num (Finite 1) \<rparr>) = Inr pl
          \<and> series pl = Some s \<and> step s = None"
    using step_present_iff [OF stepped_result [of 1]] ns [of "Num (Finite 1)"] stepped_result [of 1]
    by simp
  have c: "\<exists>pl s. buildFinalRenderPayload plain_runtime
                 (single_input \<lparr> seriesStep := Num (Finite 2) \<rparr>) = Inr pl
          \<and> series pl = Some s \<and> step s = Some (Finite 2)"
    using step_present_iff [OF stepped_result [of 2]] ns [of "Num (Finite 2)"] stepped_result [of 2]
    by simp
  have d: "series mixed_list_payload = Some (listed ''A1'' (Finite 3) (Finite 1) None)
           \<and> step (listed ''A1'' (Finite 3) (Finite 1) None) = None"
    using step_present_iff [OF mixed_list_result]
    by (simp add: example_defs)
  have e: "seriesStep single_input = Undefined"
    by (simp add: example_defs)
  show ?thesis
    using a b c d e ns0 single_input_result mixed_list_result by blast
qed

lemma series_entry_ok_step:
  "series_entry_ok (series_list_entry rt (Obj ((''step'', v) # kvs))) =
   series_entry_ok (series_list_entry rt (Obj kvs))"
  by (simp add: series_entry_ok_def series_list_entry_def)

lemma single_series_Inl_step:
  "single_series rt (p \<lparr> seriesStep := v \<rparr>) = Inl e \<longleftrightarrow> single_series rt p = Inl e"
  by (simp add: single_series_Inl_iff check_defs)

text \<open>
  Claim C10. The step is never checked. Replacing \<open>seriesStep\<close> by any value leaves
  every error of the builder as it is, so no step makes a call fail; a finite step other
  than 1 (0, a negative number, a fraction) is the \<open>step\<close> of the emitted single series
  as it stands; a list entry that passes the filter with such a step is emitted with
  that step, and whether a list entry passes the filter does not depend on its step.
\<close>

theorem step_not_validated:
  "(\<forall>v e. buildFinalRenderPayload rt (p \<lparr> seriesStep := v \<rparr>) = Inl e \<longleftrightarrow>
           buildFinalRenderPayload rt p = Inl e)
   \<and> (\<forall>pl r. buildFinalRenderPayload rt p = Inr pl \<and> \<not> hasSeriesList rt p \<and>
             Number rt (seriesStep p) = Finite r \<and> r \<noteq> 1 \<longrightarrow>
             (\<exists>s. series pl = Some s \<and> step s = Some (Finite r)))
   \<and> (\<forall>pl xs x r. buildFinalRenderPayload rt p = Inr pl \<and> seriesList p = Arr xs \<and>
             x \<in> set xs \<and> series_entry_ok (series_list_entry rt x) \<and>
             Number rt (get_prop x ''step'') = Finite r \<and> r \<noteq> 1 \<longrightarrow>
             (\<exists>l. series_list pl = Some l \<and> series_list_entry rt x \<in> set l \<and>
                  step (series_list_entry rt x) = Some (Finite r)))
   \<and> (\<forall>kvs v. series_entry_ok (series_list_entry rt (Obj ((''step'', v) # kvs))) =
              series_entry_ok (series_list_entry rt (Obj kvs)))"
proof -
  have 1: "buildFinalRenderPayload rt (p \<lparr> seriesStep := v \<rparr>) = Inl e \<longleftrightarrow>
           buildFinalRenderPayload rt p = Inl e" for v e
    by (simp add: build_Inl_iff single_series_Inl_step job_id_given_def documentId_given_def
          size_given_def hasSeriesList_def series_list_of_def cong: option.case_cong)
  have 2: "\<exists>s. series pl = Some s \<and> step s = Some (Finite r)"
    if b: "buildFinalRenderPayload rt p = Inr pl" and ns: "\<not> hasSeriesList rt p"
      and n: "Number rt (seriesStep p) = Finite r" and r: "r \<noteq> 1" for pl r
  proof -
    obtain s where s: "single_series rt p = Inr s"
      using build_Inr_fields(8) [OF b ns] by blast
    have "series pl = Some s"
      using build_Inr_fields(7) [OF b] ns s by simp
    moreover have "step s = Some (Finite r)"
      using single_series_step [OF s] n r by (simp add: step_field_def)
    ultimately show ?thesis by blast
  qed
  have 3: "\<exists>l. series_list pl = Some l \<and> series_list_entry rt x \<in> set l \<and>
                  step (series_list_entry rt x) = Some (Finite r)"
    if b: "buildFinalRenderPayload rt p = Inr pl" and xs: "seriesList p = Arr xs"
      and x: "x \<in> set xs" and ok: "series_entry_ok (series_list_entry rt x)"
      and n: "Number rt (get_prop x ''step'') = Finite r" and r: "r \<noteq> 1" for pl xs x r
  proof -
    have mem: "series_list_entry rt x \<in> set (filter series_entry_ok (map (series_list_entry rt) xs))"
      using x ok by simp
    then have "filter series_entry_ok (map (series_list_entry rt) xs) \<noteq> []"
      by (metis empty_iff empty_set)
    then have h: "hasSeriesList rt p"
      using xs by (simp add: hasSeriesList_def series_list_of_def)
    have "series_list pl = Some (filter series_entry_ok (map (series_list_entry rt) xs))"
      using build_Inr_fields(6) [OF b] h xs by (simp add: series_list_of_def)
    moreover have "step (series_list_entry rt x) = Some (Finite r)"
      using n r by (simp add: series_list_entry_step step_field_def)
    ultimately show ?thesis using mem by blast
  qed
  show ?thesis
    using 1 2 3 series_entry_ok_step by blast
qed

theorem step_not_validated_witness:
  "(\<exists>pl s. buildFinalRenderPayload plain_runtime
              (single_input \<lparr> seriesStep := Num (Finite 0) \<rparr>) = Inr pl
        \<and> series pl = Some s \<and> step s = Some (Finite 0))
   \<and> (\<exists>pl s. buildFinalRenderPayload plain_runtime
              (single_input \<lparr> seriesStep := Num (Finite (- 3)) \<rparr>) = Inr pl
        \<and> series pl = Some s \<and> step s = Some (Finite (- 3)))
   \<and> (\<exists>pl s. buildFinalRenderPayload plain_runtime
              (single_input \<lparr> seriesStep := Num (Finite (5 / 2)) \<rparr>) = Inr pl
        \<and> series pl = Some s \<and> step s = Some (Finite (5 / 2)))
   \<and> buildFinalRenderPayload plain_runtime mixed_list_input = Inr mixed_list_payload
   \<and> (\<exists>l. series_list mixed_list_payload = Some l
        \<and> listed ''B2'' (Finite 7) (Finite 1) (Some (Finite 2)) \<in> set l)"
proof -
  have single: "\<exists>pl s. buildFinalRenderPayload plain_runtime
              (single_input \<lparr> seriesStep := Num (Finite r) \<rparr>) = Inr pl
        \<and> series pl = Some s \<and> step s = Some (Finite r)" if r: "r \<noteq> 1" for r
  proof -
    let ?p = "single_input \<lparr> seriesStep := Num (Finite r) \<rparr>"
    have "buildFinalRenderPayload plain_runtime ?p \<noteq> Inl e" for e
      using step_not_validated [of plain_runtime single_input] single_input_result by simp
    then obtain pl where pl: "buildFinalRenderPayload plain_runtime ?p = Inr pl"
      by (cases "buildFinalRenderPayload plain_runtime ?p") auto
    have ns: "\<not> hasSeriesList plain_runtime ?p"
      by (simp add: hasSeriesList_def series_list_of_def example_defs)
    have n: "Number plain_runtime (seriesStep ?p) = Finite r"
      by simp
    show ?thesis
      using step_not_validated [of plain_runtime ?p] pl ns n r by blast
  qed
  let ?x = "list_entry ''B2'' (Num (Finite 7)) (Num (Finite 1)) (Num (Finite 2))"
  have e: "series_list_entry plain_runtime ?x = listed ''B2'' (Finite 7) (Finite 1) (Some (Finite 2))"
    by (simp add: example_defs series_list_entry_def str_or_empty_def trim_examples step_field_def)
  have ok: "series_entry_ok (series_list_entry plain_runtime ?x)"
    by (simp add: e) (simp add: series_entry_ok_def example_defs)
  have n: "Number plain_runtime (get_prop ?x ''step'') = Finite 2"
    by (simp add: example_defs)
  have xs: "seriesList mixed_list_input =
      Arr [list_entry ''A1'' (Num (Finite 3)) (Num (Finite 1)) Undefined,
            list_entry ''X'' (Num (Finite 0)) (Num (Finite 1)) Undefined, ?x]"
    by (simp add: mixed_list_input_def)
  have "\<exists>l. series_list mixed_list_payload = Some l \<and> series_list_entry plain_runtime ?x \<in> set l"
  proof -
    have mem: "?x \<in> set [list_entry ''A1'' (Num (Finite 3)) (Num (Finite 1)) Undefined,
            list_entry ''X'' (Num (Finite 0)) (Num (Finite 1)) Undefined, ?x]"
      by simp
    have two: "(2::real) \<noteq> 1"
      by simp
    show ?thesis
      using step_not_validated [of plain_runtime mixed_list_input] mixed_list_result xs mem ok n two
      by blast
  qed
  then have l: "\<exists>l. series_list mixed_list_payload = Some l
        \<and> listed ''B2'' (Finite 7) (Finite 1) (Some (Finite 2)) \<in> set l"
    by (simp add: e)
  show ?thesis
    using single [of 0] single [of "- 3"] single [of "5 / 2"] mixed_list_result l by simp
qed

section \<open>The series list and the single series\<close>

lemma hasSeriesList_iff:
  "hasSeriesList rt p \<longleftrightarrow>
     (\<exists>xs. seriesList p = Arr xs \<and> filter series_entry_ok (map (series_list_entry rt) xs) \<noteq> [])"
  by (auto simp: hasSeriesList_def series_list_of_def split: jsval.splits)

lemma toFiniteNumberOrNull_Some:
  "toFiniteNumberOrNull rt v = Some n \<Longrightarrow> isFinite n \<and> n = Number rt v"
  by (cases v) (auto simp: Let_def split: if_splits)

lemma single_series_fields:
  assumes "single_series rt p = Inr s"
  shows "start s = str_or_empty rt (seriesStart p)"
    and "count s = Number rt (seriesCount p)"
    and "font_family s = str_or_empty rt (seriesFontFamily p)"
    and "font_size_mm s = Number rt (seriesFontSizeMm p)"
    and "anchor_space s = ''object_mm''"
    and "toFiniteNumberOrNull rt (seriesXMm p) = Some (x_mm s)"
    and "toFiniteNumberOrNull rt (seriesYMm p) = Some (y_mm s)"
    and "letter_spacing_mm s = Number rt (seriesLetterSpacingMm p)"
    and "rotation_deg s = Number rt (seriesRotationDeg p)"
    and "color s = trim (str_or_empty rt (seriesColor p))"
  using assms
  by (auto simp: single_series_def Let_def split: if_splits option.splits)

lemma single_series_valid:
  assumes "single_series rt p = Inr s"
  shows "start s \<noteq> [] \<and> isFinite (count s) \<and> gt0 (count s) \<and> font_family s \<noteq> [] \<and>
         isFinite (font_size_mm s) \<and> gt0 (font_size_mm s) \<and> isFinite (x_mm s) \<and>
         isFinite (y_mm s) \<and> isFinite (letter_spacing_mm s) \<and> isFinite (rotation_deg s) \<and>
         color s \<noteq> []"
proof -
  have ex: "\<exists>s. single_series rt p = Inr s"
    using assms by blast
  have "isFinite (x_mm s)" "isFinite (y_mm s)"
    using single_series_fields(6,7) [OF assms] toFiniteNumberOrNull_Some by blast+
  then show ?thesis
    using ex single_series_fields [OF assms]
    by (simp add: single_series_succeeds_iff check_defs)
qed

lemma mixed_list_survivors:
  "filter series_entry_ok (map (series_list_entry plain_runtime)
      [list_entry ''A1'' (Num (Finite 3)) (Num (Finite 1)) Undefined,
       list_entry ''X'' (Num (Finite 0)) (Num (Finite 1)) Undefined,
       list_entry ''B2'' (Num (Finite 7)) (Num (Finite 1)) (Num (Finite 2))]) =
     [listed ''A1'' (Finite 3) (Finite 1) None,
      listed ''B2'' (Finite 7) (Finite 1) (Some (Finite 2))]"
  by (simp add: builder_defs example_defs trim_examples)

text \<open>
  Claim C1. When the mapped and filtered \<open>seriesList\<close> has a first entry, a returned
  payload has exactly the surviving entries as \<open>series_list\<close> and the first of them as
  \<open>series\<close>; the nine flat single-series parameters are not looked at (the call has the
  same result whatever they are replaced by), and the call returns a payload exactly if
  the three leading checks pass. When no entry survives or \<open>seriesList\<close> is no array, a
  returned payload has no \<open>series_list\<close>, and its \<open>series\<close> is built from the flat
  parameters, each of which has passed its check.
\<close>

theorem shape_selection:
  "(\<forall>xs e es. seriesList p = Arr xs \<and>
        filter series_entry_ok (map (series_list_entry rt) xs) = e # es \<longrightarrow>
      (\<forall>pl. buildFinalRenderPayload rt p = Inr pl \<longrightarrow>
         series_list pl = Some (e # es) \<and> series pl = Some e)
      \<and> (\<forall>a b c d f g h i j.
           buildFinalRenderPayload rt
             (p \<lparr> seriesStart := a, seriesCount := b, seriesXMm := c, seriesYMm := d,
                 seriesFontFamily := f, seriesFontSizeMm := g, seriesLetterSpacingMm := h,
                 seriesRotationDeg := i, seriesColor := j \<rparr>) =
           buildFinalRenderPayload rt p)
      \<and> ((\<exists>pl. buildFinalRenderPayload rt p = Inr pl) \<longleftrightarrow>
           job_id_given rt p \<and> documentId_given rt p \<and> size_given rt p))
   \<and> ((\<forall>xs. seriesList p = Arr xs \<longrightarrow>
          filter series_entry_ok (map (series_list_entry rt) xs) = []) \<longrightarrow>
      (\<forall>pl. buildFinalRenderPayload rt p = Inr pl \<longrightarrow>
         series_list pl = None \<and>
         (\<exists>s. series pl = Some s \<and>
            start s = str_or_empty rt (seriesStart p) \<and> start s \<noteq> [] \<and>
            count s = Number rt (seriesCount p) \<and> isFinite (count s) \<and> gt0 (count s) \<and>
            toFiniteNumberOrNull rt (seriesXMm p) = Some (x_mm s) \<and>
            toFiniteNumberOrNull rt (seriesYMm p) = Some (y_mm s) \<and>
            font_family s = str_or_empty rt (seriesFontFamily p) \<and> font_family s \<noteq> [] \<and>
            font_size_mm s = Number rt (seriesFontSizeMm p) \<and>
            isFinite (font_size_mm s) \<and> gt0 (font_size_mm s) \<and>
            letter_spacing_mm s = Number rt (seriesLetterSpacingMm p) \<and>
            isFinite (letter_spacing_mm s) \<and>
            rotation_deg s = Number rt (seriesRotationDeg p) \<and> isFinite (rotation_deg s) \<and>
            color s = trim (str_or_empty rt (seriesColor p)) \<and> color s \<noteq> [])))"
proof -
  have plural: "(\<forall>pl. buildFinalRenderPayload rt p = Inr pl \<longrightarrow>
         series_list pl = Some (e # es) \<and> series pl = Some e)
      \<and> (\<forall>a b c d f g h i j.
           buildFinalRenderPayload rt
             (p \<lparr> seriesStart := a, seriesCount := b, seriesXMm := c, seriesYMm := d,
                 seriesFontFamily := f, seriesFontSizeMm := g, seriesLetterSpacingMm := h,
                 seriesRotationDeg := i, seriesColor := j \<rparr>) =
           buildFinalRenderPayload rt p)
      \<and> ((\<exists>pl. buildFinalRenderPayload rt p = Inr pl) \<longleftrightarrow>
           job_id_given rt p \<and> documentId_given rt p \<and> size_given rt p)"
    if xs: "seriesList p = Arr xs"
      and f: "filter series_entry_ok (map (series_list_entry rt) xs) = e # es" for xs e es
  proof -
    have sl: "series_list_of rt p = Some (e # es)"
      using xs f by (simp add: series_list_of_def)
    then have h: "hasSeriesList rt p"
      by (simp add: hasSeriesList_def)
    have 1: "series_list pl = Some (e # es) \<and> series pl = Some e"
      if b: "buildFinalRenderPayload rt p = Inr pl" for pl
      using build_Inr_fields(6,7) [OF b] h sl by simp
    have 2: "buildFinalRenderPayload rt
             (p \<lparr> seriesStart := a, seriesCount := b, seriesXMm := c, seriesYMm := d,
                 seriesFontFamily := f, seriesFontSizeMm := g, seriesLetterSpacingMm := h,
                 seriesRotationDeg := i, seriesColor := j \<rparr>) =
           buildFinalRenderPayload rt p" for a b c d f g h i j
      by (rule build_cong)
         (use h in \<open>simp_all add: object_mm_of_def series_list_of_def custom_fonts_of_def
            overlays_of_def imageOverlays_def svgOverlays_of_def\<close>)
    have 3: "(\<exists>pl. buildFinalRenderPayload rt p = Inr pl) \<longleftrightarrow>
           job_id_given rt p \<and> documentId_given rt p \<and> size_given rt p"
      using h by (simp add: build_succeeds_iff)
    show ?thesis
      using 1 2 3 by blast
  qed
  have singular: "series_list pl = None \<and>
         (\<exists>s. series pl = Some s \<and>
            start s = str_or_empty rt (seriesStart p) \<and> start s \<noteq> [] \<and>
            count s = Number rt (seriesCount p) \<and> isFinite (count s) \<and> gt0 (count s) \<and>
            toFiniteNumberOrNull rt (seriesXMm p) = Some (x_mm s) \<and>
            toFiniteNumberOrNull rt (seriesYMm p) = Some (y_mm s) \<and>
            font_family s = str_or_empty rt (seriesFontFamily p) \<and> font_family s \<noteq> [] \<and>
            font_size_mm s = Number rt (seriesFontSizeMm p) \<and>
            isFinite (font_size_mm s) \<and> gt0 (font_size_mm s) \<and>
            letter_spacing_mm s = Number rt (seriesLetterSpacingMm p) \<and>
            isFinite (letter_spacing_mm s) \<and>
            rotation_deg s = Number rt (seriesRotationDeg p) \<and> isFinite (rotation_deg s) \<and>
            color s = trim (str_or_empty rt (seriesColor p)) \<and> color s \<noteq> [])"
    if none: "\<forall>xs. seriesList p = Arr xs \<longrightarrow>
          filter series_entry_ok (map (series_list_entry rt) xs) = []"
      and b: "buildFinalRenderPayload rt p = Inr pl" for pl
  proof -
    have ns: "\<not> hasSeriesList rt p"
      using none by (simp add: hasSeriesList_iff)
    obtain s where s: "single_series rt p = Inr s"
      using build_Inr_fields(8) [OF b ns] by blast
    have "series_list pl = None" "series pl = Some s"
      using build_Inr_fields(6,7) [OF b] ns s by simp_all
    then show ?thesis
      using single_series_fields [OF s] single_series_valid [OF s] by simp
  qed
  show ?thesis
    using plural singular by blast
qed

theorem shape_selection_witness:
  "seriesList mixed_list_input =
     Arr [list_entry ''A1'' (Num (Finite 3)) (Num (Finite 1)) Undefined,
          list_entry ''X'' (Num (Finite 0)) (Num (Finite 1)) Undefined,
          list_entry ''B2'' (Num (Finite 7)) (Num (Finite 1)) (Num (Finite 2))]
   \<and> buildFinalRenderPayload plain_runtime mixed_list_input = Inr mixed_list_payload
   \<and> series_list mixed_list_payload =
       Some [listed ''A1'' (Finite 3) (Finite 1) None,
             listed ''B2'' (Finite 7) (Finite 1) (Some (Finite 2))]
   \<and> series mixed_list_payload = Some (listed ''A1'' (Finite 3) (Finite 1) None)
   \<and> buildFinalRenderPayload plain_runtime
        (mixed_list_input \<lparr> seriesStart := Null, seriesCount := Num (Finite (- 1)),
           seriesXMm := Undefined, seriesYMm := Null, seriesFontFamily := Num NaN,
           seriesFontSizeMm := Num (Finite 0), seriesLetterSpacingMm := Num PosInf,
           seriesRotationDeg := Undefined, seriesColor := Str '' '' \<rparr>) =
       Inr mixed_list_payload
   \<and> seriesList single_input = Undefined
   \<and> buildFinalRenderPayload plain_runtime single_input = Inr single_payload
   \<and> series_list single_payload = None
   \<and> series single_payload = Some single_series_A"
proof -
  have xs: "seriesList mixed_list_input =
     Arr [list_entry ''A1'' (Num (Finite 3)) (Num (Finite 1)) Undefined,
          list_entry ''X'' (Num (Finite 0)) (Num (Finite 1)) Undefined,
          list_entry ''B2'' (Num (Finite 7)) (Num (Finite 1)) (Num (Finite 2))]"
    by (simp add: mixed_list_input_def)
  note plural = shape_selection [of mixed_list_input plain_runtime, THEN conjunct1, rule_format,
      OF conjI [OF xs mixed_list_survivors]]
  have a: "series_list mixed_list_payload =
       Some [listed ''A1'' (Finite 3) (Finite 1) None,
             listed ''B2'' (Finite 7) (Finite 1) (Some (Finite 2))]
     \<and> series mixed_list_payload = Some (listed ''A1'' (Finite 3) (Finite 1) None)"
    using plural mixed_list_result by blast
  have b: "buildFinalRenderPayload plain_runtime
        (mixed_list_input \<lparr> seriesStart := Null, seriesCount := Num (Finite (- 1)),
           seriesXMm := Undefined, seriesYMm := Null, seriesFontFamily := Num NaN,
           seriesFontSizeMm := Num (Finite 0), seriesLetterSpacingMm := Num PosInf,
           seriesRotationDeg := Undefined, seriesColor := Str '' '' \<rparr>) =
       Inr mixed_list_payload"
    using plural mixed_list_result by simp
  have n: "seriesList single_input = Undefined"
    by (simp add: example_defs)
  have c: "series_list single_payload = None"
    using shape_selection [of single_input plain_runtime] n single_input_result by simp
  have d: "series single_payload = Some single_series_A"
    by (simp add: example_defs)
  show ?thesis
    using xs a b c d n mixed_list_result single_input_result by blast
qed

text \<open>
  Claim C4. When some entry of \<open>seriesList\<close> satisfies the per-entry conditions, no
  other entry and no flat single-series parameter makes the call fail: it returns a
  payload exactly if the three leading checks pass, and the \<open>series_list\<close> of the
  payload is the mapped list filtered by the conditions, that is the entries that satisfy
  them, in their order, and no other. The conditions are a non-empty start, a finite
  count above 0, a non-empty font family, a finite font size above 0, finite \<open>x_mm\<close>,
  \<open>y_mm\<close>, \<open>letter_spacing_mm\<close> and \<open>rotation_deg\<close>, and a colour that is non-empty
  after trimming.
\<close>

theorem series_list_pruning:
  assumes "seriesList p = Arr xs"
    and "x \<in> set xs" and "series_entry_ok (series_list_entry rt x)"
  shows "((\<exists>pl. buildFinalRenderPayload rt p = Inr pl) \<longleftrightarrow>
            job_id_given rt p \<and> documentId_given rt p \<and> size_given rt p)
         \<and> (\<forall>pl. buildFinalRenderPayload rt p = Inr pl \<longrightarrow>
               series_list pl = Some (filter series_entry_ok (map (series_list_entry rt) xs)))
         \<and> (\<forall>e. series_entry_ok e =
               (start e \<noteq> [] \<and> isFinite (count e) \<and> gt0 (count e) \<and>
                font_family e \<noteq> [] \<and> isFinite (font_size_mm e) \<and> gt0 (font_size_mm e) \<and>
                isFinite (x_mm e) \<and> isFinite (y_mm e) \<and> isFinite (letter_spacing_mm e) \<and>
                isFinite (rotation_deg e) \<and> color e \<noteq> []))"
proof -
  have "filter series_entry_ok (map (series_list_entry rt) xs) \<noteq> []"
    using assms(2,3) by (auto simp: filter_empty_conv)
  then have h: "hasSeriesList rt p"
    using assms(1) by (auto simp: hasSeriesList_iff)
  have 1: "(\<exists>pl. buildFinalRenderPayload rt p = Inr pl) \<longleftrightarrow>
            job_id_given rt p \<and> documentId_given rt p \<and> size_given rt p"
    using h by (simp add: build_succeeds_iff)
  have 2: "series_list pl = Some (filter series_entry_ok (map (series_list_entry rt) xs))"
    if pl: "buildFinalRenderPayload rt p = Inr pl" for pl
    using build_Inr_fields(6) [OF pl] h assms(1) by (simp add: series_list_of_def)
  show ?thesis
    using 1 2 by (simp add: series_entry_ok_def)
qed

theorem series_list_pruning_witness:
  "seriesList mixed_list_input =
     Arr [list_entry ''A1'' (Num (Finite 3)) (Num (Finite 1)) Undefined,
          list_entry ''X'' (Num (Finite 0)) (Num (Finite 1)) Undefined,
          list_entry ''B2'' (Num (Finite 7)) (Num (Finite 1)) (Num (Finite 2))]
   \<and> series_entry_ok (series_list_entry plain_runtime
        (list_entry ''A1'' (Num (Finite 3)) (Num (Finite 1)) Undefined))
   \<and> \<not> series_entry_ok (series_list_entry plain_runtime
        (list_entry ''X'' (Num (Finite 0)) (Num (Finite 1)) Undefined))
   \<and> job_id_given plain_runtime mixed_list_input
   \<and> documentId_given plain_runtime mixed_list_input
   \<and> size_given plain_runtime mixed_list_input
   \<and> (\<exists>pl. buildFinalRenderPayload plain_runtime mixed_list_input = Inr pl \<and>
         series_list pl = Some [listed ''A1'' (Finite 3) (Finite 1) None,
                                listed ''B2'' (Finite 7) (Finite 1) (Some (Finite 2))])"
proof -
  let ?a = "list_entry ''A1'' (Num (Finite 3)) (Num (Finite 1)) Undefined"
  let ?b = "list_entry ''X'' (Num (Finite 0)) (Num (Finite 1)) Undefined"
  let ?c = "list_entry ''B2'' (Num (Finite 7)) (Num (Finite 1)) (Num (Finite 2))"
  have xs: "seriesList mixed_list_input = Arr [?a, ?b, ?c]"
    by (simp add: mixed_list_input_def)
  have hd: "job_id_given plain_runtime mixed_list_input
    \<and> documentId_given plain_runtime mixed_list_input
    \<and> size_given plain_runtime mixed_list_input"
    by (simp add: check_defs example_defs trim_examples str_or_empty_def)
  have mem: "?a \<in> set [?a, ?b, ?c]"
    by simp
  have ok: "series_entry_ok (series_list_entry plain_runtime ?a)"
    by (simp add: builder_defs example_defs trim_examples)
  have bad: "\<not> series_entry_ok (series_list_entry plain_runtime ?b)"
    by (simp add: builder_defs example_defs trim_examples)
  have "\<exists>pl. buildFinalRenderPayload plain_runtime mixed_list_input = Inr pl \<and>
         series_list pl = Some (filter series_entry_ok
           (map (series_list_entry plain_runtime) [?a, ?b, ?c]))"
    using series_list_pruning [OF xs mem ok] hd by blast
  then show ?thesis
    using xs ok bad hd by (simp only: mixed_list_survivors) simp
qed

section \<open>Missing coordinates\<close>

lemma StringToNumber_empty: "StringToNumber rt [] = Finite 0"
  by (simp add: StringToNumber_def trim_def)

lemma Number_null_empty: "Number rt Null = Finite 0" "Number rt (Str []) = Finite 0"
  by (simp_all add: StringToNumber_empty)

lemma null_coordinate_result:
  "buildFinalRenderPayload plain_runtime null_coordinate_input = Inr null_coordinate_payload"
  by (simp add: builder_defs example_defs trim_examples null_coordinate_input_def
        null_coordinate_payload_def StringToNumber_def)

text \<open>
  Claim C9. \<open>Number(null)\<close> and \<open>Number('')\<close> are 0, so a list entry whose \<open>xMm\<close> (or
  \<open>yMm\<close>) is \<open>null\<close> or the empty string gets the finite coordinate 0, and when it
  passes the filter it is emitted with that coordinate. On the single-series path a
  \<open>seriesXMm\<close> or \<open>seriesYMm\<close> that is \<open>null\<close> or missing makes every call throw, and
  the error is the one about the coordinates when the checks before it pass.
\<close>

theorem null_list_coordinate_is_zero:
  "Number rt Null = Finite 0 \<and> Number rt (Str []) = Finite 0
   \<and> (\<forall>s. get_prop s ''xMm'' = Null \<or> get_prop s ''xMm'' = Str [] \<longrightarrow>
         x_mm (series_list_entry rt s) = Finite 0 \<and> isFinite (x_mm (series_list_entry rt s)))
   \<and> (\<forall>s. get_prop s ''yMm'' = Null \<or> get_prop s ''yMm'' = Str [] \<longrightarrow>
         y_mm (series_list_entry rt s) = Finite 0 \<and> isFinite (y_mm (series_list_entry rt s)))
   \<and> (\<forall>pl xs s. buildFinalRenderPayload rt p = Inr pl \<and> seriesList p = Arr xs \<and> s \<in> set xs \<and>
         series_entry_ok (series_list_entry rt s) \<and>
         (get_prop s ''xMm'' = Null \<or> get_prop s ''xMm'' = Str []) \<longrightarrow>
         (\<exists>l. series_list pl = Some l \<and> series_list_entry rt s \<in> set l \<and>
              x_mm (series_list_entry rt s) = Finite 0))
   \<and> (\<forall>pl xs s. buildFinalRenderPayload rt p = Inr pl \<and> seriesList p = Arr xs \<and> s \<in> set xs \<and>
         series_entry_ok (series_list_entry rt s) \<and>
         (get_prop s ''yMm'' = Null \<or> get_prop s ''yMm'' = Str []) \<longrightarrow>
         (\<exists>l. series_list pl = Some l \<and> series_list_entry rt s \<in> set l \<and>
              y_mm (series_list_entry rt s) = Finite 0))
   \<and> (\<not> hasSeriesList rt p \<and>
       (seriesXMm p = Null \<or> seriesXMm p = Undefined \<or>
        seriesYMm p = Null \<or> seriesYMm p = Undefined) \<longrightarrow>
         (\<exists>e. buildFinalRenderPayload rt p = Inl e) \<and>
         (job_id_given rt p \<and> documentId_given rt p \<and> size_given rt p \<and>
          start_given rt p \<and> count_valid rt p \<longrightarrow>
            buildFinalRenderPayload rt p =
              Inl (Error ''series requires object_mm coordinates (missing seriesXMm/seriesYMm)'')))"
proof -
  have x0: "x_mm (series_list_entry rt s) = Finite 0 \<and> isFinite (x_mm (series_list_entry rt s))"
    if "get_prop s ''xMm'' = Null \<or> get_prop s ''xMm'' = Str []" for s
    using that by (auto simp: series_list_entry_def StringToNumber_empty)
  have y0: "y_mm (series_list_entry rt s) = Finite 0 \<and> isFinite (y_mm (series_list_entry rt s))"
    if "get_prop s ''yMm'' = Null \<or> get_prop s ''yMm'' = Str []" for s
    using that by (auto simp: series_list_entry_def StringToNumber_empty)
  have emitted: "\<exists>l. series_list pl = Some l \<and> series_list_entry rt s \<in> set l"
    if b: "buildFinalRenderPayload rt p = Inr pl" and xs: "seriesList p = Arr xs"
      and s: "s \<in> set xs" and ok: "series_entry_ok (series_list_entry rt s)" for pl xs s
  proof -
    have mem: "series_list_entry rt s \<in> set (filter series_entry_ok (map (series_list_entry rt) xs))"
      using s ok by simp
    then have "filter series_entry_ok (map (series_list_entry rt) xs) \<noteq> []"
      by (metis empty_iff empty_set)
    then have "hasSeriesList rt p"
      using xs by (auto simp: hasSeriesList_iff)
    then have "series_list pl = Some (filter series_entry_ok (map (series_list_entry rt) xs))"
      using build_Inr_fields(6) [OF b] xs by (simp add: series_list_of_def)
    then show ?thesis
      using mem by blast
  qed
  have single: "(\<exists>e. buildFinalRenderPayload rt p = Inl e) \<and>
         (job_id_given rt p \<and> documentId_given rt p \<and> size_given rt p \<and>
          start_given rt p \<and> count_valid rt p \<longrightarrow>
            buildFinalRenderPayload rt p =
              Inl (Error ''series requires object_mm coordinates (missing seriesXMm/seriesYMm)''))"
    if ns: "\<not> hasSeriesList rt p"
      and c: "seriesXMm p = Null \<or> seriesXMm p = Undefined \<or>
              seriesYMm p = Null \<or> seriesYMm p = Undefined"
  proof -
    have nc: "\<not> coordinates_given rt p"
      using c by (auto simp: coordinates_given_def)
    then have "\<not> (\<exists>pl. buildFinalRenderPayload rt p = Inr pl)"
      using ns by (simp add: build_succeeds_iff single_series_succeeds_iff)
    then have 1: "\<exists>e. buildFinalRenderPayload rt p = Inl e"
      by (cases "buildFinalRenderPayload rt p") auto
    have 2: "buildFinalRenderPayload rt p =
              Inl (Error ''series requires object_mm coordinates (missing seriesXMm/seriesYMm)'')"
      if "job_id_given rt p \<and> documentId_given rt p \<and> size_given rt p \<and>
          start_given rt p \<and> count_valid rt p"
      using that nc ns by (simp add: build_Inl_iff single_series_Inl_iff)
    show ?thesis
      using 1 2 by blast
  qed
  show ?thesis
    using Number_null_empty [of rt] x0 y0 emitted single by blast
qed

theorem null_list_coordinate_is_zero_witness:
  "buildFinalRenderPayload plain_runtime null_coordinate_input = Inr null_coordinate_payload
   \<and> get_prop (list_entry ''N1'' (Num (Finite 2)) Null Undefined) ''xMm'' = Null
   \<and> get_prop (list_entry ''N2'' (Num (Finite 2)) (Str []) Undefined) ''xMm'' = Str []
   \<and> (\<exists>l. series_list null_coordinate_payload = Some l
         \<and> listed ''N1'' (Finite 2) (Finite 0) None \<in> set l
         \<and> listed ''N2'' (Finite 2) (Finite 0) None \<in> set l)
   \<and> x_mm (listed ''N1'' (Finite 2) (Finite 0) None) = Finite 0
   \<and> buildFinalRenderPayload plain_runtime (single_input \<lparr> seriesXMm := Null \<rparr>) =
       Inl (Error ''series requires object_mm coordinates (missing seriesXMm/seriesYMm)'')"
proof -
  let ?a = "list_entry ''N1'' (Num (Finite 2)) Null Undefined"
  let ?b = "list_entry ''N2'' (Num (Finite 2)) (Str []) Undefined"
  note inst = null_list_coordinate_is_zero [of plain_runtime null_coordinate_input]
  have xs: "seriesList null_coordinate_input = Arr [?a, ?b]"
    by (simp add: null_coordinate_input_def)
  have ga: "get_prop ?a ''xMm'' = Null" and gb: "get_prop ?b ''xMm'' = Str []"
    by (simp_all add: list_entry_def)
  have ea: "series_list_entry plain_runtime ?a = listed ''N1'' (Finite 2) (Finite 0) None"
    and eb: "series_list_entry plain_runtime ?b = listed ''N2'' (Finite 2) (Finite 0) None"
    by (simp_all add: builder_defs example_defs trim_examples StringToNumber_empty)
  have oka: "series_entry_ok (series_list_entry plain_runtime ?a)"
    and okb: "series_entry_ok (series_list_entry plain_runtime ?b)"
    unfolding ea eb by (simp_all add: series_entry_ok_def listed_def)
  have ma: "?a \<in> set [?a, ?b]" and mb: "?b \<in> set [?a, ?b]"
    by simp_all
  have la: "\<exists>l. series_list null_coordinate_payload = Some l \<and>
              series_list_entry plain_runtime ?a \<in> set l \<and>
              x_mm (series_list_entry plain_runtime ?a) = Finite 0"
    using inst null_coordinate_result xs ma oka ga by blast
  have lb: "\<exists>l. series_list null_coordinate_payload = Some l \<and>
              series_list_entry plain_runtime ?b \<in> set l \<and>
              x_mm (series_list_entry plain_runtime ?b) = Finite 0"
    using inst null_coordinate_result xs mb okb gb by blast
  have l: "\<exists>l. series_list null_coordinate_payload = Some l
         \<and> listed ''N1'' (Finite 2) (Finite 0) None \<in> set l
         \<and> listed ''N2'' (Finite 2) (Finite 0) None \<in> set l"
    using la lb unfolding ea eb by auto
  have x: "x_mm (listed ''N1'' (Finite 2) (Finite 0) None) = Finite 0"
    using la unfolding ea by blast
  let ?p = "single_input \<lparr> seriesXMm := Null \<rparr>"
  have pre: "\<not> hasSeriesList plain_runtime ?p" "seriesXMm ?p = Null"
    "job_id_given plain_runtime ?p" "documentId_given plain_runtime ?p"
    "size_given plain_runtime ?p" "start_given plain_runtime ?p" "count_valid plain_runtime ?p"
    by (simp_all add: check_defs example_defs trim_examples str_or_empty_def hasSeriesList_def
          series_list_of_def)
  have s: "buildFinalRenderPayload plain_runtime ?p =
       Inl (Error ''series requires object_mm coordinates (missing seriesXMm/seriesYMm)'')"
    using null_list_coordinate_is_zero [of plain_runtime ?p] pre by blast
  show ?thesis
    using null_coordinate_result ga gb l x s by blast
qed

end
